theory Spec2Isabelle
  imports Main
begin

section \<open>Python values\<close>

text \<open>
  The two modules are dynamically typed: what a statement does depends on the run-time
  class of the value it meets (tuple unpacking, \<^verbatim>\<open>isinstance\<close>, attribute access,
  \<^verbatim>\<open>list + int\<close>, a \<^verbatim>\<open>dict\<close> key given to \<^verbatim>\<open>json\<close>). Values are therefore one datatype.
  A dictionary is an association list in insertion order, which is the order Python
  iterates it in. An instance of a class of the toolkit (\<^verbatim>\<open>Tracker\<close>, \<^verbatim>\<open>Experiment\<close>,
  \<^verbatim>\<open>Analysis\<close>, \<^verbatim>\<open>Measure\<close>, \<^verbatim>\<open>Curve\<close>) is \<open>PObj\<close> with its class name and its
  attributes; a method without arguments (\<^verbatim>\<open>describe()\<close>) is the attribute that holds
  what the call returns. Numbers are integers: the code only moves measured values around.
\<close>

datatype pyobj =
    PNone
  | PBool bool
  | PInt int
  | PStr string
  | PTuple "pyobj list"
  | PList "pyobj list"
  | PDict "(pyobj \<times> pyobj) list"
  | PObj string "(string \<times> pyobj) list"

text \<open>Every exception the modelled code can raise or let through is a value.\<close>

datatype error =
    TypeError
  | ValueError
  | KeyError pyobj
  | IndexError
  | AttributeError
  | UnsupportedOperation
  | ArgumentError
  | Raised string

text \<open>Sequencing of steps that may raise: the first exception ends the computation.\<close>

fun and_then :: "error + 'a \<Rightarrow> ('a \<Rightarrow> error + 'b) \<Rightarrow> error + 'b" where
  "and_then (Inl e) f = Inl e"
| "and_then (Inr v) f = f v"

text \<open>A comprehension: the items are computed in order and the first exception wins.\<close>

fun collect :: "(error + 'a) list \<Rightarrow> error + 'a list" where
  "collect [] = Inr []"
| "collect (Inl e # rs) = Inl e"
| "collect (Inr v # rs) = and_then (collect rs) (\<lambda>vs. Inr (v # vs))"

text \<open>
  Iteration (\<^verbatim>\<open>for x in v\<close>): tuples and lists give their items, a dictionary its keys,
  a string its characters. \<^verbatim>\<open>None\<close>, booleans, integers and plain class instances are
  not iterable: \<^verbatim>\<open>TypeError\<close>.
\<close>

fun py_iter :: "pyobj \<Rightarrow> error + pyobj list" where
  "py_iter (PTuple xs) = Inr xs"
| "py_iter (PList xs) = Inr xs"
| "py_iter (PDict kvs) = Inr (map fst kvs)"
| "py_iter (PStr s) = Inr (map (\<lambda>c. PStr [c]) s)"
| "py_iter v = Inl TypeError"

text \<open>
  Unpacking into two targets (\<^verbatim>\<open>a, b = v\<close>, \<^verbatim>\<open>for a, b in ...\<close>): the value is iterated
  and must give exactly two items, else \<^verbatim>\<open>ValueError\<close>.
\<close>

fun unpack_items :: "pyobj list \<Rightarrow> error + (pyobj \<times> pyobj)" where
  "unpack_items [a, b] = Inr (a, b)"
| "unpack_items xs = Inl ValueError"

definition unpack2 :: "pyobj \<Rightarrow> error + (pyobj \<times> pyobj)" where
  "unpack2 v = and_then (py_iter v) unpack_items"

text \<open>\<^verbatim>\<open>d.items()\<close>: only a dictionary has the method.\<close>

fun py_items :: "pyobj \<Rightarrow> error + (pyobj \<times> pyobj) list" where
  "py_items (PDict kvs) = Inr kvs"
| "py_items v = Inl AttributeError"

fun getattr :: "pyobj \<Rightarrow> string \<Rightarrow> error + pyobj" where
  "getattr (PObj cls attrs) attr =
     (case map_of attrs attr of None \<Rightarrow> Inl AttributeError | Some v \<Rightarrow> Inr v)"
| "getattr v attr = Inl AttributeError"

fun isinstance :: "pyobj \<Rightarrow> string \<Rightarrow> bool" where
  "isinstance (PObj c attrs) cls = (c = cls)"
| "isinstance v cls = False"

text \<open>Lists and dictionaries cannot be dictionary keys (they are unhashable).\<close>

fun hashable :: "pyobj \<Rightarrow> bool" where
  "hashable (PList xs) = False"
| "hashable (PDict kvs) = False"
| "hashable (PTuple xs) = list_all hashable xs"
| "hashable v = True"

text \<open>Subscription \<^verbatim>\<open>c[k]\<close>; a negative list index counts from the end.\<close>

definition list_index :: "pyobj list \<Rightarrow> int \<Rightarrow> error + pyobj" where
  "list_index xs i =
     (if 0 \<le> i \<and> i < int (length xs) then Inr (xs ! nat i)
      else if i < 0 \<and> - int (length xs) \<le> i then Inr (xs ! nat (int (length xs) + i))
      else Inl IndexError)"

fun py_getitem :: "pyobj \<Rightarrow> pyobj \<Rightarrow> error + pyobj" where
  "py_getitem (PDict kvs) k =
     (if hashable k
      then (case map_of kvs k of None \<Rightarrow> Inl (KeyError k) | Some v \<Rightarrow> Inr v)
      else Inl TypeError)"
| "py_getitem (PList xs) (PInt i) = list_index xs i"
| "py_getitem (PTuple xs) (PInt i) = list_index xs i"
| "py_getitem (PStr s) (PInt i) = list_index (map (\<lambda>c. PStr [c]) s) i"
| "py_getitem c k = Inl TypeError"

fun py_add :: "pyobj \<Rightarrow> pyobj \<Rightarrow> error + pyobj" where
  "py_add (PInt a) (PInt b) = Inr (PInt (a + b))"
| "py_add (PStr a) (PStr b) = Inr (PStr (a @ b))"
| "py_add (PList a) (PList b) = Inr (PList (a @ b))"
| "py_add (PTuple a) (PTuple b) = Inr (PTuple (a @ b))"
| "py_add a b = Inl TypeError"

fun py_len :: "pyobj \<Rightarrow> error + nat" where
  "py_len (PList xs) = Inr (length xs)"
| "py_len (PTuple xs) = Inr (length xs)"
| "py_len (PStr s) = Inr (length s)"
| "py_len (PDict kvs) = Inr (length kvs)"
| "py_len v = Inl TypeError"

section \<open>Run-length grouping of header cells\<close>

text \<open>
  \<^verbatim>\<open>merge_repeats\<close> of \<^verbatim>\<open>vot/analysis/document.py\<close>. The function returns the empty
  list on an empty input; otherwise it walks \<^verbatim>\<open>objects[1:]\<close> with the local variables
  \<^verbatim>\<open>previous\<close>, \<^verbatim>\<open>count\<close> and \<^verbatim>\<open>repeats\<close>, and appends the last run after the loop.
  Python's \<^verbatim>\<open>==\<close> on header cells is HOL equality on the cell type.
\<close>

fun merge_loop :: "'a list \<Rightarrow> 'a \<Rightarrow> nat \<Rightarrow> ('a \<times> nat) list \<Rightarrow> ('a \<times> nat) list" where
  "merge_loop [] previous count repeats = repeats @ [(previous, count)]"
| "merge_loop (ob # rest) previous count repeats =
     (if ob = previous then merge_loop rest previous (count + 1) repeats
      else merge_loop rest ob 1 (repeats @ [(previous, count)]))"

definition merge_repeats :: "'a list \<Rightarrow> ('a \<times> nat) list" where
  "merge_repeats objects =
     (case objects of [] \<Rightarrow> [] | first # rest \<Rightarrow> merge_loop rest first 1 [])"

text \<open>Each value repeated its count, concatenated: the decoding the specification speaks of.\<close>

definition expand :: "('a \<times> nat) list \<Rightarrow> 'a list" where
  "expand repeats = concat (map (\<lambda>(v, c). replicate c v) repeats)"

section \<open>The measures table\<close>

text \<open>
  \<^verbatim>\<open>extract_measures_table\<close>. \<^verbatim>\<open>table_header\<close> is a list of three lists, \<^verbatim>\<open>table_data\<close> a
  dictionary from tracker to the list of its values. Line 21 reads
  \<^verbatim>\<open>for i, description in descriptions\<close>: every item of \<^verbatim>\<open>describe()\<close> is unpacked into
  two. Line 29 reads \<^verbatim>\<open>for tracker, tresult in aresults\<close>: every item that iterating
  \<^verbatim>\<open>aresults\<close> gives is unpacked into two. Line 32 walks \<^verbatim>\<open>enumerate(descriptions)\<close>.
\<close>

type_synonym table_header = "pyobj list \<times> pyobj list \<times> pyobj list"
type_synonym table_data = "(pyobj \<times> pyobj list) list"

definition describe :: "pyobj \<Rightarrow> error + pyobj" where
  "describe analysis = getattr analysis ''describe''"

fun header_loop :: "pyobj \<Rightarrow> pyobj \<Rightarrow> pyobj list \<Rightarrow> table_header \<Rightarrow> error + table_header" where
  "header_loop experiment analysis [] th = Inr th"
| "header_loop experiment analysis (item # items) (h0, h1, h2) =
     and_then (unpack2 item) (\<lambda>(i, description).
       if description = PNone then header_loop experiment analysis items (h0, h1, h2)
       else if isinstance description ''Measure''
       then header_loop experiment analysis items
              (h0 @ [experiment], h1 @ [analysis], h2 @ [description])
       else header_loop experiment analysis items (h0, h1, h2))"

text \<open>\<^verbatim>\<open>table_data[tracker].append(v)\<close>, for a tracker that is a key of the table.\<close>

definition row_append :: "table_data \<Rightarrow> pyobj \<Rightarrow> pyobj \<Rightarrow> table_data" where
  "row_append td tracker v =
     map (\<lambda>(k, row). if k = tracker then (k, row @ [v]) else (k, row)) td"

fun values_loop :: "pyobj \<Rightarrow> pyobj \<Rightarrow> nat \<Rightarrow> pyobj list \<Rightarrow> table_data \<Rightarrow> error + table_data" where
  "values_loop aresults tracker i [] td = Inr td"
| "values_loop aresults tracker i (description # rest) td =
     (if description = PNone then values_loop aresults tracker (i + 1) rest td
      else if isinstance description ''Measure''
      then and_then (py_getitem aresults tracker) (\<lambda>tvalues.
           and_then (py_getitem tvalues (PInt (int i))) (\<lambda>v.
             values_loop aresults tracker (i + 1) rest (row_append td tracker v)))
      else values_loop aresults tracker (i + 1) rest td)"

fun tracker_loop :: "pyobj \<Rightarrow> pyobj \<Rightarrow> pyobj list \<Rightarrow> table_data \<Rightarrow> error + table_data" where
  "tracker_loop aresults descriptions [] td = Inr td"
| "tracker_loop aresults descriptions (item # items) td =
     and_then (unpack2 item) (\<lambda>(tracker, tresult).
       if hashable tracker
       then and_then (py_iter descriptions) (\<lambda>ds.
            and_then (values_loop aresults tracker 0 ds
                        (if tracker \<in> set (map fst td) then td else td @ [(tracker, [])]))
              (tracker_loop aresults descriptions items))
       else Inl TypeError)"

fun analysis_loop ::
  "pyobj \<Rightarrow> (pyobj \<times> pyobj) list \<Rightarrow> table_header \<times> table_data
     \<Rightarrow> error + table_header \<times> table_data" where
  "analysis_loop experiment [] acc = Inr acc"
| "analysis_loop experiment ((analysis, aresults) # rest) (th, td) =
     and_then (describe analysis) (\<lambda>descriptions.
     and_then (py_iter descriptions) (\<lambda>items.
     and_then (header_loop experiment analysis items th) (\<lambda>th1.
     and_then (py_iter aresults) (\<lambda>titems.
     and_then (tracker_loop aresults descriptions titems td) (\<lambda>td1.
       analysis_loop experiment rest (th1, td1))))))"

fun experiment_loop ::
  "(pyobj \<times> pyobj) list \<Rightarrow> table_header \<times> table_data \<Rightarrow> error + table_header \<times> table_data" where
  "experiment_loop [] acc = Inr acc"
| "experiment_loop ((experiment, eresults) # rest) acc =
     and_then (py_items eresults) (\<lambda>aitems.
     and_then (analysis_loop experiment aitems acc) (experiment_loop rest))"

definition extract_measures_table :: "pyobj \<Rightarrow> error + table_header \<times> table_data" where
  "extract_measures_table results =
     and_then (py_items results) (\<lambda>eitems. experiment_loop eitems (([], [], []), []))"

section \<open>Plot extraction\<close>

text \<open>
  \<^verbatim>\<open>extract_plots\<close>. The dictionary \<^verbatim>\<open>plots\<close> is created empty and returned; for each
  analysis the lists \<^verbatim>\<open>curves\<close> and \<^verbatim>\<open>measures\<close> start empty, and the branch taken when
  there are exactly two measures is \<^verbatim>\<open>pass\<close>.
\<close>

fun plot_description_loop ::
  "pyobj list \<Rightarrow> pyobj list \<times> pyobj list \<Rightarrow> error + pyobj list \<times> pyobj list" where
  "plot_description_loop [] cm = Inr cm"
| "plot_description_loop (item # items) (curves, measures') =
     and_then (unpack2 item) (\<lambda>(i, description).
       if description = PNone then plot_description_loop items (curves, measures')
       else plot_description_loop items
              (if isinstance description ''Curve'' then curves @ [description] else curves,
               if isinstance description ''Measure'' then measures' @ [description] else measures'))"

fun plot_analysis_loop ::
  "(pyobj \<times> pyobj) list \<Rightarrow> (pyobj \<times> pyobj) list \<Rightarrow> error + (pyobj \<times> pyobj) list" where
  "plot_analysis_loop [] plots = Inr plots"
| "plot_analysis_loop ((analysis, aresults) # rest) plots =
     and_then (describe analysis) (\<lambda>descriptions.
     and_then (py_iter descriptions) (\<lambda>items.
     and_then (plot_description_loop items ([], [])) (\<lambda>(curves, measures').
       plot_analysis_loop rest (if length measures' = 2 then plots else plots))))"

fun plot_experiment_loop ::
  "(pyobj \<times> pyobj) list \<Rightarrow> (pyobj \<times> pyobj) list \<Rightarrow> error + (pyobj \<times> pyobj) list" where
  "plot_experiment_loop [] plots = Inr plots"
| "plot_experiment_loop ((experiment, eresults) # rest) plots =
     and_then (py_items eresults) (\<lambda>aitems.
     and_then (plot_analysis_loop aitems plots) (plot_experiment_loop rest))"

definition extract_plots :: "pyobj \<Rightarrow> error + (pyobj \<times> pyobj) list" where
  "extract_plots results =
     and_then (py_items results) (\<lambda>eitems. plot_experiment_loop eitems [])"

section \<open>Structured-data export\<close>

text \<open>
  \<^verbatim>\<open>generate_json_document\<close> hands the result mapping to \<^verbatim>\<open>json.dump\<close> with the encoder
  class \<^verbatim>\<open>StringifyEncoder\<close>. The library walks the value: \<^verbatim>\<open>None\<close>, booleans, numbers
  and strings are written as they are, lists and tuples as arrays, dictionaries as
  objects. A dictionary key must be a string, a number, a boolean or \<^verbatim>\<open>None\<close>; any
  other key raises \<^verbatim>\<open>TypeError\<close> (\<^verbatim>\<open>skipkeys\<close> is left at \<^verbatim>\<open>False\<close>), and the encoder's
  \<^verbatim>\<open>default\<close> method is not asked about keys. For a value of any other class the
  library calls \<^verbatim>\<open>default\<close> and encodes what it returns. The document is kept as a
  tree; a key is kept as the value whose text the library writes.
\<close>

datatype json =
    JNull
  | JBool bool
  | JNum int
  | JStr string
  | JArr "json list"
  | JObj "(pyobj \<times> json) list"

text \<open>
  \<^verbatim>\<open>StringifyEncoder.default\<close>; the last line, \<^verbatim>\<open>json.JSONEncoder.default(self, obj)\<close>,
  raises \<^verbatim>\<open>TypeError\<close>.
\<close>

definition StringifyEncoder_default :: "pyobj \<Rightarrow> error + pyobj" where
  "StringifyEncoder_default ob =
     (if isinstance ob ''Analysis'' then getattr ob ''name''
      else if isinstance ob ''Tracker'' then getattr ob ''label''
      else if isinstance ob ''Experiment'' then getattr ob ''identifier''
      else Inl TypeError)"

fun encode_key :: "pyobj \<Rightarrow> error + pyobj" where
  "encode_key (PStr s) = Inr (PStr s)"
| "encode_key (PInt i) = Inr (PInt i)"
| "encode_key (PBool b) = Inr (PBool b)"
| "encode_key PNone = Inr PNone"
| "encode_key k = Inl TypeError"

lemma size_map_of:
  "map_of attrs a = Some v \<Longrightarrow> size v < Suc (size_list (size_prod (\<lambda>_. 0) size) attrs)"
  by (induction attrs) (auto split: if_splits)

lemma StringifyEncoder_default_smaller:
  "StringifyEncoder_default ob = Inr v \<Longrightarrow> size v < size ob"
  by (cases ob)
     (auto simp: StringifyEncoder_default_def split: if_splits option.splits dest!: size_map_of)

function encode :: "pyobj \<Rightarrow> error + json" where
  "encode PNone = Inr JNull"
| "encode (PBool b) = Inr (JBool b)"
| "encode (PInt i) = Inr (JNum i)"
| "encode (PStr s) = Inr (JStr s)"
| "encode (PList xs) =
     (case collect (map encode xs) of Inl e \<Rightarrow> Inl e | Inr js \<Rightarrow> Inr (JArr js))"
| "encode (PTuple xs) =
     (case collect (map encode xs) of Inl e \<Rightarrow> Inl e | Inr js \<Rightarrow> Inr (JArr js))"
| "encode (PDict kvs) =
     (case collect (map (\<lambda>kv. case encode_key (fst kv) of
                               Inl e \<Rightarrow> Inl e
                             | Inr k \<Rightarrow> (case encode (snd kv) of
                                          Inl e \<Rightarrow> Inl e
                                        | Inr j \<Rightarrow> Inr (k, j))) kvs) of
        Inl e \<Rightarrow> Inl e
      | Inr members \<Rightarrow> Inr (JObj members))"
| "encode (PObj cls attrs) =
     (case StringifyEncoder_default (PObj cls attrs) of
        Inl e \<Rightarrow> Inl e
      | Inr v \<Rightarrow> encode v)"
  by pat_completeness auto
termination
proof (relation "measure size", goal_cases)
  case 1
  show ?case by simp
next
  case (2 xs x)
  then show ?case by (simp add: less_Suc_eq_le size_list_estimation')
next
  case (3 xs x)
  then show ?case by (simp add: less_Suc_eq_le size_list_estimation')
next
  case (4 kvs kv k)
  have "size (snd kv) \<le> size_prod size size kv" by (cases kv) simp
  with 4 show ?case by (simp add: less_Suc_eq_le size_list_estimation')
next
  case (5 cls attrs v)
  from StringifyEncoder_default_smaller [OF 5] show ?case by simp
qed

text \<open>What the call leaves in the file when it returns; an exception reaches the caller.\<close>

definition generate_json_document :: "pyobj \<Rightarrow> error + json" where
  "generate_json_document results = encode results"

section \<open>Tabular export\<close>

text \<open>
  \<^verbatim>\<open>generate_latex_document\<close>. The table handed to the typesetting library is the column
  specification and the lines added to it, in order. The column specification is
  \<^verbatim>\<open>"l " * len(table_header[2] + 1)\<close>: the sum is taken first, of a list and an integer.
\<close>

datatype cell = Plain pyobj | MultiColumn nat pyobj

datatype table_line = HLine | Row "cell list" | EndTableHeader

record long_table =
  column_spec :: string
  table_lines :: "table_line list"

definition multicolumns :: "(pyobj \<times> nat) list \<Rightarrow> error + cell list" where
  "multicolumns repeats =
     collect (map (\<lambda>c. and_then (getattr (fst c) ''identifier'') (\<lambda>d. Inr (MultiColumn (snd c) d)))
                  repeats)"

definition abbreviations :: "pyobj list \<Rightarrow> error + cell list" where
  "abbreviations descriptions =
     collect (map (\<lambda>c. and_then (getattr c ''abbreviation'') (\<lambda>a. Inr (Plain a))) descriptions)"

definition body_rows :: "table_data \<Rightarrow> error + table_line list" where
  "body_rows td =
     collect (map (\<lambda>(tracker, data). and_then (getattr tracker ''label'')
                     (\<lambda>l. Inr (Row (Plain l # map Plain data)))) td)"

definition generate_latex_document :: "pyobj \<Rightarrow> error + long_table" where
  "generate_latex_document results =
     and_then (extract_measures_table results) (\<lambda>((h0, h1, h2), td).
     and_then (py_add (PList h2) (PInt 1)) (\<lambda>total.
     and_then (py_len total) (\<lambda>n.
     and_then (multicolumns (merge_repeats h0)) (\<lambda>row0.
     and_then (multicolumns (merge_repeats h1)) (\<lambda>row1.
     and_then (abbreviations h2) (\<lambda>row2.
     and_then (body_rows td) (\<lambda>body.
       Inr \<lparr>column_spec = concat (replicate n ''l ''),
            table_lines =
              [HLine, Row (Plain (PStr '' '') # row0),
               HLine, Row (Plain (PStr '' '') # row1),
               HLine, Row (Plain (PStr '' '') # row2),
               HLine, EndTableHeader, HLine] @ body\<rparr>)))))))"

section \<open>The command line\<close>

text \<open>
  \<^verbatim>\<open>vot/__main__.py\<close>. The namespace that \<^verbatim>\<open>parser.parse_args()\<close> returns is a record;
  \<open>config_action\<close> is \<open>None\<close> when no command is given, and \<open>config_trackers\<close> is
  \<open>None\<close> when the optional positional argument of \<^verbatim>\<open>evaluate\<close> is left out
  (\<^verbatim>\<open>nargs='?', default=None\<close>).
\<close>

record config =
  config_debug :: bool
  config_registry :: "string list"
  config_action :: "string option"
  config_tracker :: string
  config_trackers :: "string option"
  config_workspace :: string
  config_stack :: string

datatype tracker = Tracker (tracker_identifier: string)

datatype "experiment" = Experiment (experiment_identifier: string)

datatype sequence = Sequence (sequence_name: string)

datatype stack = Stack (stack_dataset: "string option")

record workspace =
  workspace_registry :: "string list"
  workspace_stack :: "experiment list"
  workspace_dataset :: "sequence list"

text \<open>
  The collaborators of the module, which are not part of it: the tracker registry, the
  stack resolver, the workspace, the tracker runtime, the experiments and the clock. A
  call that may raise returns the exception, or \<open>None\<close> when it returns normally.
  \<open>experiment_scan\<close> returns the pair \<^verbatim>\<open>(complete, files)\<close>.
\<close>

record env =
  load_trackers :: "string list \<Rightarrow> (string \<times> tracker) list"
  resolve_stack :: "string \<Rightarrow> stack option"
  open_workspace :: "string \<Rightarrow> workspace"
  dummy_length :: int
  tracker_runtime :: "tracker \<Rightarrow> error option"
  runtime_initialize :: "tracker \<Rightarrow> error option"
  runtime_update :: "tracker \<Rightarrow> int \<Rightarrow> error option"
  initialize_workspace :: "string \<Rightarrow> error option"
  download_vot_dataset :: "string \<Rightarrow> string \<Rightarrow> error option"
  experiment_execute :: "experiment \<Rightarrow> tracker \<Rightarrow> sequence \<Rightarrow> error option"
  experiment_scan :: "experiment \<Rightarrow> tracker \<Rightarrow> sequence \<Rightarrow> bool \<times> string list"
  datetime_now :: string

text \<open>
  What a run changes: the level of the logger and the records it lets through, the calls
  made to collaborators that act on the outside, and the archives on disk, each with its
  members.
\<close>

datatype call =
    Runtime tracker
  | Initialize tracker
  | Update tracker int
  | InitializeWorkspace string
  | Download string string
  | Execute "experiment" tracker sequence
  | Scan "experiment" tracker sequence
  | PrintHelp
  | PrintTraceback

record world =
  level :: nat
  log :: "(nat \<times> string \<times> pyobj list) list"
  calls :: "call list"
  files :: "string \<rightharpoonup> (string \<times> string) list"

definition INFO :: nat where "INFO = 20"
definition WARNING :: nat where "WARNING = 30"
definition ERROR :: nat where "ERROR = 40"
definition DEBUG :: nat where "DEBUG = 10"

text \<open>A record is let through when its level is not below the level of the logger.\<close>

definition log_record :: "nat \<Rightarrow> world \<Rightarrow> string \<Rightarrow> pyobj list \<Rightarrow> world" where
  "log_record lv w msg args = (if level w \<le> lv then w\<lparr>log := log w @ [(lv, msg, args)]\<rparr> else w)"

definition info :: "world \<Rightarrow> string \<Rightarrow> pyobj list \<Rightarrow> world" where
  "info = log_record INFO"

definition error :: "world \<Rightarrow> string \<Rightarrow> pyobj list \<Rightarrow> world" where
  "error = log_record ERROR"

definition called :: "world \<Rightarrow> call \<Rightarrow> world" where
  "called w c = w\<lparr>calls := calls w @ [c]\<rparr>"

definition quoted :: "string \<Rightarrow> string" where
  "quoted s = [CHR 0x27] @ s @ [CHR 0x27]"

subsection \<open>Strings and paths\<close>

text \<open>
  A character of a string is a code point below 256. \<^verbatim>\<open>str.split(sep)\<close> for a separator
  of one character, and \<^verbatim>\<open>str.strip()\<close>, which removes the code points for which
  \<^verbatim>\<open>str.isspace\<close> holds.
\<close>

fun split_loop :: "char \<Rightarrow> string \<Rightarrow> string \<Rightarrow> string list" where
  "split_loop sep current [] = [current]"
| "split_loop sep current (c # cs) =
     (if c = sep then current # split_loop sep [] cs else split_loop sep (current @ [c]) cs)"

definition split :: "string \<Rightarrow> char \<Rightarrow> string list" where
  "split s sep = split_loop sep [] s"

definition whitespace :: "char \<Rightarrow> bool" where
  "whitespace c = (c \<in> set [CHR 0x20, CHR 0x09, CHR 0x0A, CHR 0x0B, CHR 0x0C, CHR 0x0D,
                              CHR 0x1C, CHR 0x1D, CHR 0x1E, CHR 0x1F, CHR 0x85, CHR 0xA0])"

definition strip :: "string \<Rightarrow> string" where
  "strip s = rev (dropWhile whitespace (rev (dropWhile whitespace s)))"

text \<open>
  \<^verbatim>\<open>os.path.join\<close>: every argument must be a string, anything else raises
  \<^verbatim>\<open>TypeError\<close>; a component that starts with the separator replaces what came before.
\<close>

fun as_str :: "pyobj \<Rightarrow> error + string" where
  "as_str (PStr s) = Inr s"
| "as_str v = Inl TypeError"

definition join2 :: "string \<Rightarrow> string \<Rightarrow> string" where
  "join2 a b =
     (if b \<noteq> [] \<and> hd b = CHR ''/'' then b
      else if a = [] then b
      else if last a = CHR ''/'' then a @ b
      else a @ ''/'' @ b)"

definition path_join :: "pyobj \<Rightarrow> pyobj list \<Rightarrow> error + string" where
  "path_join a p =
     and_then (as_str a) (\<lambda>first.
     and_then (collect (map as_str p)) (\<lambda>parts. Inr (foldl join2 first parts)))"

subsection \<open>The test command\<close>



subsection \<open>The workspace command\<close>


subsection \<open>The evaluate command\<close>

text \<open>
  The three loops of \<^verbatim>\<open>do_evaluate\<close>. The call \<^verbatim>\<open>experiment.execute(...)\<close> stands in no
  \<^verbatim>\<open>try\<close> block: what it raises leaves the loops.
\<close>

fun evaluate_sequences ::
  "env \<Rightarrow> tracker \<Rightarrow> experiment \<Rightarrow> sequence list \<Rightarrow> world \<Rightarrow> error option \<times> world" where
  "evaluate_sequences env tracker experiment [] w = (None, w)"
| "evaluate_sequences env tracker experiment (sequence # rest) w =
     (case experiment_execute env experiment tracker sequence of
        Some e \<Rightarrow>
          (Some e, called (info w '' |=== > Sequence %s'' [PStr (sequence_name sequence)])
                     (Execute experiment tracker sequence))
      | None \<Rightarrow>
          evaluate_sequences env tracker experiment rest
            (called (info w '' |=== > Sequence %s'' [PStr (sequence_name sequence)])
               (Execute experiment tracker sequence)))"

fun evaluate_experiments ::
  "env \<Rightarrow> workspace \<Rightarrow> tracker \<Rightarrow> experiment list \<Rightarrow> world \<Rightarrow> error option \<times> world" where
  "evaluate_experiments env workspace tracker [] w = (None, w)"
| "evaluate_experiments env workspace tracker (experiment # rest) w =
     (case evaluate_sequences env tracker experiment (workspace_dataset workspace)
             (info w '' |== > Running experiment %s'' [PStr (experiment_identifier experiment)]) of
        (Some e, w1) \<Rightarrow> (Some e, w1)
      | (None, w1) \<Rightarrow> evaluate_experiments env workspace tracker rest w1)"

fun evaluate_trackers ::
  "env \<Rightarrow> workspace \<Rightarrow> tracker list \<Rightarrow> world \<Rightarrow> error option \<times> world" where
  "evaluate_trackers env workspace [] w = (None, w)"
| "evaluate_trackers env workspace (tracker # rest) w =
     (case evaluate_experiments env workspace tracker (workspace_stack workspace)
             (info w '' |= > Evaluating tracker %s'' [PStr (tracker_identifier tracker)]) of
        (Some e, w1) \<Rightarrow> (Some e, w1)
      | (None, w1) \<Rightarrow> evaluate_trackers env workspace rest w1)"

text \<open>\<^verbatim>\<open>registry[key]\<close>, and the comprehension over the names of \<^verbatim>\<open>config.trackers\<close>.\<close>

definition registry_get :: "(string \<times> tracker) list \<Rightarrow> string \<Rightarrow> error + tracker" where
  "registry_get registry key =
     (case map_of registry key of None \<Rightarrow> Inl (KeyError (PStr key)) | Some t \<Rightarrow> Inr t)"

text \<open>
  \<^verbatim>\<open>str(ke)\<close> of a \<^verbatim>\<open>KeyError\<close> is the \<^verbatim>\<open>repr\<close> of the key. For a string: single
  quotes, or double quotes when the string has a single quote and no double quote; the
  chosen quote and the backslash are escaped, tab, newline and carriage return are
  written \<^verbatim>\<open>\t\<close>, \<^verbatim>\<open>\n\<close>, \<^verbatim>\<open>\r\<close>, and any other code point that is not printable is
  written \<^verbatim>\<open>\xNN\<close>.
\<close>

definition hex_digit :: "nat \<Rightarrow> char" where
  "hex_digit n = ''0123456789abcdef'' ! (n mod 16)"

definition printable :: "char \<Rightarrow> bool" where
  "printable c =
     (32 \<le> (of_char c :: nat) \<and> (of_char c :: nat) \<noteq> 127
      \<and> ((of_char c :: nat) < 128 \<or> 160 < (of_char c :: nat))
      \<and> (of_char c :: nat) \<noteq> 173)"

definition escape :: "char \<Rightarrow> char \<Rightarrow> string" where
  "escape q c =
     (if c = q \<or> c = CHR 0x5C then [CHR 0x5C, c]
      else if c = CHR 0x09 then [CHR 0x5C, CHR ''t'']
      else if c = CHR 0x0A then [CHR 0x5C, CHR ''n'']
      else if c = CHR 0x0D then [CHR 0x5C, CHR ''r'']
      else if printable c then [c]
      else [CHR 0x5C, CHR ''x'', hex_digit (of_char c div 16), hex_digit (of_char c mod 16)])"

definition repr_str :: "string \<Rightarrow> string" where
  "repr_str s =
     (let q = (if CHR 0x27 \<in> set s \<and> CHR 0x22 \<notin> set s then CHR 0x22 else CHR 0x27)
      in [q] @ concat (map (escape q) s) @ [q])"

fun str_KeyError :: "pyobj \<Rightarrow> pyobj" where
  "str_KeyError (PStr key) = PStr (repr_str key)"
| "str_KeyError key = key"

text \<open>
  \<^verbatim>\<open>config.trackers.split(",")\<close> on \<^verbatim>\<open>None\<close> raises \<^verbatim>\<open>AttributeError\<close>. The \<^verbatim>\<open>try\<close>
  block around the comprehension has one handler, for \<^verbatim>\<open>KeyError\<close>, which logs and
  returns; any other exception leaves the function.
\<close>

definition select_trackers ::
  "(string \<times> tracker) list \<Rightarrow> string option \<Rightarrow> error + tracker list" where
  "select_trackers registry trackers =
     (case trackers of
        None \<Rightarrow> Inl AttributeError
      | Some text \<Rightarrow> collect (map (\<lambda>t. registry_get registry (strip t)) (split text CHR '','')))"

definition do_evaluate :: "env \<Rightarrow> config \<Rightarrow> world \<Rightarrow> error option \<times> world" where
  "do_evaluate env config w =
     (let workspace = open_workspace env (config_workspace config);
          w1 = info w (''Loaded workspace in '' @ quoted ''%s'') [PStr (config_workspace config)];
          registry = load_trackers env (workspace_registry workspace @ config_registry config);
          w2 = info w1 ''Found data for %d trackers'' [PInt (int (length registry))]
      in case select_trackers registry (config_trackers config) of
           Inl (KeyError key) \<Rightarrow> (None, error w2 ''Tracker not found %s'' [str_KeyError key])
         | Inl e \<Rightarrow> (Some e, w2)
         | Inr trackers \<Rightarrow>
             (case evaluate_trackers env workspace trackers w2 of
                (Some e, w3) \<Rightarrow> (Some e, w3)
              | (None, w3) \<Rightarrow> (None, info w3 ''Evaluation concluded successfuly'' [])))"

subsection \<open>The analysis command\<close>


subsection \<open>The pack command\<close>

text \<open>
  \<^verbatim>\<open>workspace.results(tracker, experiment, sequence)\<close> is the handle of one unit. Each
  collected file is the tuple \<^verbatim>\<open>(f, experiment.identifier, sequence.name, results)\<close>.
\<close>

definition results_handle :: "tracker \<Rightarrow> experiment \<Rightarrow> sequence \<Rightarrow> pyobj" where
  "results_handle tracker experiment sequence =
     PObj ''Results''
       [(''tracker'', PStr (tracker_identifier tracker)),
        (''experiment'', PStr (experiment_identifier experiment)),
        (''sequence'', PStr (sequence_name sequence))]"

definition collected :: "tracker \<Rightarrow> experiment \<Rightarrow> sequence \<Rightarrow> string \<Rightarrow> pyobj" where
  "collected tracker experiment sequence f =
     PTuple [PStr f, PStr (experiment_identifier experiment), PStr (sequence_name sequence),
             results_handle tracker experiment sequence]"

fun scan_sequences ::
  "env \<Rightarrow> tracker \<Rightarrow> experiment \<Rightarrow> sequence list \<Rightarrow> pyobj list \<times> bool \<times> world
     \<Rightarrow> pyobj list \<times> bool \<times> world" where
  "scan_sequences env tracker experiment [] acc = acc"
| "scan_sequences env tracker experiment (sequence # rest) (all_files, can_finish, w) =
     (if fst (experiment_scan env experiment tracker sequence)
      then scan_sequences env tracker experiment rest
             (all_files @ map (collected tracker experiment sequence)
                            (snd (experiment_scan env experiment tracker sequence)),
              can_finish,
              called w (Scan experiment tracker sequence))
      else scan_sequences env tracker experiment rest
             (all_files @ map (collected tracker experiment sequence)
                            (snd (experiment_scan env experiment tracker sequence)),
              False,
              error (called w (Scan experiment tracker sequence))
                '' X= > Results are not complete for experiment %s, sequence %s''
                [PStr (experiment_identifier experiment), PStr (sequence_name sequence)]))"

fun scan_experiments ::
  "env \<Rightarrow> workspace \<Rightarrow> tracker \<Rightarrow> experiment list \<Rightarrow> pyobj list \<times> bool \<times> world
     \<Rightarrow> pyobj list \<times> bool \<times> world" where
  "scan_experiments env workspace tracker [] acc = acc"
| "scan_experiments env workspace tracker (experiment # rest) (all_files, can_finish, w) =
     scan_experiments env workspace tracker rest
       (scan_sequences env tracker experiment (workspace_dataset workspace)
          (all_files, can_finish,
           info w '' |= > Scanning experiment %s'' [PStr (experiment_identifier experiment)]))"

text \<open>
  The body of the loop over \<^verbatim>\<open>all_files\<close>. The member name is
  \<^verbatim>\<open>os.path.join(f[1], f[2], f)\<close>, whose last argument is the tuple \<^verbatim>\<open>f\<close> itself.
  \<^verbatim>\<open>archive.open(name)\<close> opens a member for reading, which raises \<^verbatim>\<open>KeyError\<close> when the
  archive has no member of that name; \<^verbatim>\<open>copyfileobj\<close> then writes to that handle, which
  a handle opened for reading refuses.
\<close>

definition member_name :: "pyobj \<Rightarrow> error + string" where
  "member_name f =
     and_then (py_getitem f (PInt 1)) (\<lambda>a.
     and_then (py_getitem f (PInt 2)) (\<lambda>b. path_join a [b, f]))"

definition archive_one :: "string \<Rightarrow> pyobj \<Rightarrow> world \<Rightarrow> error option" where
  "archive_one archive_name f w =
     (case member_name f of
        Inl e \<Rightarrow> Some e
      | Inr name \<Rightarrow>
          (case files w archive_name of
             None \<Rightarrow> Some ValueError
           | Some members \<Rightarrow>
               (case map_of members name of
                  None \<Rightarrow> Some (KeyError (PStr name))
                | Some content \<Rightarrow> Some UnsupportedOperation)))"

fun archive_loop :: "string \<Rightarrow> pyobj list \<Rightarrow> world \<Rightarrow> error option \<times> world" where
  "archive_loop archive_name [] w = (None, w)"
| "archive_loop archive_name (f # rest) w =
     (case archive_one archive_name f w of
        Some e \<Rightarrow> (Some e, w)
      | None \<Rightarrow> archive_loop archive_name rest w)"

definition do_pack :: "env \<Rightarrow> config \<Rightarrow> world \<Rightarrow> error option \<times> world" where
  "do_pack env config w =
     (let workspace = open_workspace env (config_workspace config);
          w1 = info w (''Loaded workspace in '' @ quoted ''%s'') [PStr (config_workspace config)];
          registry = load_trackers env (workspace_registry workspace @ config_registry config);
          w2 = info w1 ''Found data for %d trackers'' [PInt (int (length registry))]
      in case registry_get registry (config_tracker config) of
           Inl (KeyError key) \<Rightarrow> (None, error w2 ''Tracker not found %s'' [str_KeyError key])
         | Inl e \<Rightarrow> (Some e, w2)
         | Inr tracker \<Rightarrow>
             (case scan_experiments env workspace tracker (workspace_stack workspace)
                     ([], True,
                      info w2 ''Packaging results for tracker %s''
                        [PStr (tracker_identifier tracker)]) of
                (all_files, can_finish, w3) \<Rightarrow>
                  if can_finish
                  then (let w4 = info w3 ''Collected %d files, compressing to archive ...''
                                   [PInt (int (length all_files))];
                            archive_name = tracker_identifier tracker @ ''_'' @ datetime_now env;
                            w5 = w4\<lparr>files := (files w4)(archive_name \<mapsto> [])\<rparr>
                        in case archive_loop archive_name all_files w5 of
                             (Some e, w6) \<Rightarrow> (Some e, w6)
                           | (None, w6) \<Rightarrow>
                               (None, info w6 ''Result packaging successful, archive available in %s''
                                        [PStr archive_name]))
                  else (None, error w3 ''Unable to continue, experiments not complete'' [])))"

subsection \<open>The entry point\<close>





section \<open>Auxiliary notions for the statements\<close>

text \<open>
  What a call of \<^verbatim>\<open>extract_plots\<close> has produced: the mapping it returned, and nothing
  when it raised.
\<close>

definition produced :: "error + (pyobj \<times> pyobj) list \<Rightarrow> (pyobj \<times> pyobj) list" where
  "produced outcome = (case outcome of Inl e \<Rightarrow> [] | Inr plots \<Rightarrow> plots)"

text \<open>
  The number of measure descriptions that \<^verbatim>\<open>describe()\<close> yields: the items that are
  measures, and the pairs \<^verbatim>\<open>(index, description)\<close> whose description is a measure.
\<close>

fun measure_item :: "pyobj \<Rightarrow> bool" where
  "measure_item (PTuple [i, d]) = isinstance d ''Measure''"
| "measure_item v = isinstance v ''Measure''"

definition measure_count :: "pyobj \<Rightarrow> nat" where
  "measure_count analysis =
     (case describe analysis of
        Inl e \<Rightarrow> 0
      | Inr d \<Rightarrow> (case py_iter d of Inl e \<Rightarrow> 0 | Inr items \<Rightarrow> length (filter measure_item items)))"

text \<open>The records of level \<^verbatim>\<open>ERROR\<close> that the logger has let through.\<close>

definition error_records :: "world \<Rightarrow> (nat \<times> string \<times> pyobj list) list" where
  "error_records w = filter (\<lambda>r. fst r = ERROR) (log w)"

text \<open>
  The units of the matrix in the order of the three loops, as the calls that execute
  them, and a plain left-to-right run over such a list that stops at the first call that
  raises. The loops of \<^verbatim>\<open>do_evaluate\<close> are compared with this run.
\<close>

definition units :: "tracker list \<Rightarrow> experiment list \<Rightarrow> sequence list \<Rightarrow> call list" where
  "units trackers stack dataset =
     concat (map (\<lambda>t. concat (map (\<lambda>e. map (Execute e t) dataset) stack)) trackers)"

fun raises :: "env \<Rightarrow> call \<Rightarrow> error option" where
  "raises env (Execute e t s) = experiment_execute env e t s"
| "raises env c = None"

fun run_units :: "env \<Rightarrow> call list \<Rightarrow> error option \<times> call list" where
  "run_units env [] = (None, [])"
| "run_units env (u # us) =
     (case raises env u of
        Some err \<Rightarrow> (Some err, [u])
      | None \<Rightarrow> (fst (run_units env us), u # snd (run_units env us)))"

text \<open>
  The scans of the matrix of one tracker in the order of the two loops of \<^verbatim>\<open>do_pack\<close>,
  and the record logged for a unit whose results are not complete.
\<close>

definition scans :: "tracker \<Rightarrow> experiment list \<Rightarrow> sequence list \<Rightarrow> call list" where
  "scans tracker stack dataset = concat (map (\<lambda>e. map (Scan e tracker) dataset) stack)"

definition incomplete_record :: "experiment \<Rightarrow> sequence \<Rightarrow> nat \<times> string \<times> pyobj list" where
  "incomplete_record e s =
     (ERROR, '' X= > Results are not complete for experiment %s, sequence %s'',
      [PStr (experiment_identifier e), PStr (sequence_name s)])"

section \<open>Sample objects\<close>

text \<open>
  A tracker, a measure, an analysis that declares this one measure, and an experiment,
  with the attributes the two modules read. \<open>sample_results\<close> is the mapping
  \<^verbatim>\<open>{experiment: {analysis: {tracker: [5]}}}\<close>. \<open>analysis_describing items\<close> is an
  analysis whose \<^verbatim>\<open>describe()\<close> returns the given items, \<open>results_with analysis\<close> the
  mapping \<^verbatim>\<open>{experiment: {analysis: {}}}\<close>, and \<open>indexed i description\<close> the pair
  \<^verbatim>\<open>(i, description)\<close>, the form that the loop \<^verbatim>\<open>for i, description in descriptions\<close>
  can unpack.
\<close>

definition sample_tracker :: pyobj where
  "sample_tracker = PObj ''Tracker'' [(''identifier'', PStr ''t1''), (''label'', PStr ''T1'')]"

definition sample_measure :: pyobj where
  "sample_measure = PObj ''Measure'' [(''abbreviation'', PStr ''A'')]"

definition sample_analysis :: pyobj where
  "sample_analysis =
     PObj ''Analysis'' [(''name'', PStr ''accuracy''), (''describe'', PTuple [sample_measure])]"

definition sample_experiment :: pyobj where
  "sample_experiment = PObj ''Experiment'' [(''identifier'', PStr ''baseline'')]"

definition sample_results :: pyobj where
  "sample_results =
     PDict [(sample_experiment,
             PDict [(sample_analysis, PDict [(sample_tracker, PList [PInt 5])])])]"

definition analysis_describing :: "pyobj list \<Rightarrow> pyobj" where
  "analysis_describing items =
     PObj ''Analysis'' [(''name'', PStr ''accuracy''), (''describe'', PTuple items)]"

definition results_with :: "pyobj \<Rightarrow> pyobj" where
  "results_with analysis = PDict [(sample_experiment, PDict [(analysis, PDict [])])]"

definition indexed :: "int \<Rightarrow> pyobj \<Rightarrow> pyobj" where
  "indexed i description = PTuple [PInt i, description]"

lemmas sample_defs =
  sample_tracker_def sample_measure_def sample_analysis_def sample_experiment_def
  sample_results_def analysis_describing_def results_with_def indexed_def

section \<open>A sample workspace\<close>

text \<open>
  One registered tracker \<^verbatim>\<open>t1\<close>, a stack of one experiment \<^verbatim>\<open>baseline\<close>, a dataset of
  the sequences \<^verbatim>\<open>ball\<close> and \<^verbatim>\<open>car\<close>. In \<open>sample_env\<close> the experiment raises on
  \<^verbatim>\<open>ball\<close> and its results for \<^verbatim>\<open>ball\<close> are incomplete; in \<open>quiet_env\<close> every
  execution returns and every unit is complete, with one result file.
\<close>

definition sample_workspace :: workspace where
  "sample_workspace =
     \<lparr>workspace_registry = [],
      workspace_stack = [Experiment ''baseline''],
      workspace_dataset = [Sequence ''ball'', Sequence ''car'']\<rparr>"

definition sample_env :: env where
  "sample_env =
     \<lparr>load_trackers = (\<lambda>paths. [(''t1'', Tracker ''t1'')]),
      resolve_stack = (\<lambda>name. if name = ''vot2019'' then Some (Stack None) else None),
      open_workspace = (\<lambda>path. sample_workspace),
      dummy_length = 3,
      tracker_runtime = (\<lambda>t. None),
      runtime_initialize = (\<lambda>t. None),
      runtime_update = (\<lambda>t i. None),
      initialize_workspace = (\<lambda>path. None),
      download_vot_dataset = (\<lambda>bundle path. None),
      experiment_execute =
        (\<lambda>e t s. if s = Sequence ''ball'' then Some (Raised ''ExecutionError'') else None),
      experiment_scan =
        (\<lambda>e t s. if s = Sequence ''ball'' then (False, []) else (True, [''output.txt''])),
      datetime_now = ''2019-11-04T10:00:00.000000''\<rparr>"

definition quiet_env :: env where
  "quiet_env =
     sample_env\<lparr>experiment_execute := (\<lambda>e t s. None),
                 experiment_scan := (\<lambda>e t s. (True, [''output.txt'']))\<rparr>"

definition sample_config :: config where
  "sample_config =
     \<lparr>config_debug = False,
      config_registry = [''.''],
      config_action = Some ''evaluate'',
      config_tracker = ''t1'',
      config_trackers = Some ''t1'',
      config_workspace = ''.'',
      config_stack = ''vot2019''\<rparr>"

definition sample_world :: world where
  "sample_world = \<lparr>level = WARNING, log = [], calls = [], files = Map.empty\<rparr>"

text \<open>
  Further invocations: \<^verbatim>\<open>pack t1\<close>, \<^verbatim>\<open>pack t9\<close> and \<^verbatim>\<open>test t9\<close> (no tracker \<^verbatim>\<open>t9\<close> is
  registered), \<^verbatim>\<open>workspace none\<close> (no such stack), and a workspace whose experiment raises
  \<^verbatim>\<open>argparse.ArgumentError\<close>.
\<close>

definition pack_config :: config where
  "pack_config = sample_config\<lparr>config_action := Some ''pack''\<rparr>"

definition pack_unknown_config :: config where
  "pack_unknown_config = sample_config\<lparr>config_action := Some ''pack'', config_tracker := ''t9''\<rparr>"

definition test_unknown_config :: config where
  "test_unknown_config = sample_config\<lparr>config_action := Some ''test'', config_tracker := ''t9''\<rparr>"

definition workspace_unknown_config :: config where
  "workspace_unknown_config =
     sample_config\<lparr>config_action := Some ''workspace'', config_stack := ''none''\<rparr>"

definition argument_env :: env where
  "argument_env = sample_env\<lparr>experiment_execute := (\<lambda>e t s. Some ArgumentError)\<rparr>"

lemmas workspace_defs =
  sample_workspace_def sample_env_def quiet_env_def sample_config_def sample_world_def
  pack_config_def pack_unknown_config_def test_unknown_config_def workspace_unknown_config_def
  argument_env_def

lemmas logging_defs =
  info_def error_def log_record_def called_def INFO_def WARNING_def ERROR_def DEBUG_def

section \<open>Properties of the run-length grouping\<close>

lemma expand_Nil: "expand [] = []"
  by (simp add: expand_def)

lemma expand_merge_loop:
  "expand (merge_loop rest previous count repeats)
     = expand repeats @ replicate count previous @ rest"
proof (induction rest arbitrary: previous count repeats)
  case Nil
  show ?case by (simp add: expand_def)
next
  case (Cons ob rest)
  show ?case
  proof (cases "ob = previous")
    case True
    then show ?thesis
      using Cons.IH [of previous "count + 1" repeats]
      by (simp add: replicate_append_same)
  next
    case False
    then show ?thesis
      using Cons.IH [of ob 1 "repeats @ [(previous, count)]"]
      by (simp add: expand_def)
  qed
qed

lemma distinct_adj_merge_loop:
  "distinct_adj (map fst repeats) \<Longrightarrow> (repeats \<noteq> [] \<Longrightarrow> fst (last repeats) \<noteq> previous)
     \<Longrightarrow> distinct_adj (map fst (merge_loop rest previous count repeats))"
proof (induction rest arbitrary: previous count repeats)
  case Nil
  then show ?case
    by (cases repeats rule: rev_cases) (auto simp: distinct_adj_append_iff)
next
  case (Cons ob rest)
  show ?case
  proof (cases "ob = previous")
    case True
    then show ?thesis using Cons by simp
  next
    case False
    have "distinct_adj (map fst (repeats @ [(previous, count)]))"
      using Cons.prems
      by (cases repeats rule: rev_cases) (auto simp: distinct_adj_append_iff)
    then have "distinct_adj (map fst (merge_loop rest ob 1 (repeats @ [(previous, count)])))"
      using False by (intro Cons.IH) auto
    then show ?thesis using False by simp
  qed
qed

text \<open>
  Claim C4. For every ordered input, concatenating each returned value repeated its count
  gives back the input; no two adjacent returned pairs carry equal values; the empty input
  gives the empty output; and a value that comes back after a different one opens a new
  pair: \<open>[A, A, B, A]\<close> gives \<open>[(A, 2), (B, 1), (A, 1)]\<close>.
\<close>

theorem merge_repeats_run_length:
  "expand (merge_repeats xs) = xs
   \<and> distinct_adj (map fst (merge_repeats xs))
   \<and> merge_repeats ([] :: 'a list) = []
   \<and> (A \<noteq> B \<longrightarrow> merge_repeats [A, A, B, A] = [(A, 2), (B, 1), (A, 1)])"
proof -
  have "expand (merge_repeats xs) = xs"
    by (cases xs) (simp_all add: merge_repeats_def expand_merge_loop expand_Nil)
  moreover have "distinct_adj (map fst (merge_repeats xs))"
    by (cases xs) (auto simp: merge_repeats_def intro: distinct_adj_merge_loop)
  moreover have "merge_repeats ([] :: 'a list) = []"
    by (simp add: merge_repeats_def)
  moreover have "A \<noteq> B \<longrightarrow> merge_repeats [A, A, B, A] = [(A, 2), (B, 1), (A, 1)]"
    by (simp add: merge_repeats_def)
  ultimately show ?thesis by blast
qed

theorem merge_repeats_run_length_witness:
  "expand (merge_repeats [1, 1, 2, 1 :: nat]) = [1, 1, 2, 1]
   \<and> distinct_adj (map fst (merge_repeats [1, 1, 2, 1 :: nat]))
   \<and> (1 :: nat) \<noteq> 2
   \<and> merge_repeats [1, 1, 2, 1 :: nat] = [(1, 2), (2, 1), (1, 1)]"
proof -
  have "(1 :: nat) \<noteq> 2" by simp
  with merge_repeats_run_length [of "[1, 1, 2, 1 :: nat]" "1 :: nat" "2 :: nat"]
  show ?thesis by blast
qed

section \<open>Properties of the document module\<close>

lemma and_then_eq_Inr: "and_then x f = Inr y \<longleftrightarrow> (\<exists>v. x = Inr v \<and> f v = Inr y)"
  by (cases x) simp_all

text \<open>
  \<^verbatim>\<open>None\<close> and an instance of a class cannot be unpacked, so the loop of line 21 raises
  on the first item of any \<^verbatim>\<open>describe()\<close> that lists descriptions themselves.
\<close>

lemma unpack2_description: "unpack2 PNone = Inl TypeError" "unpack2 (PObj cls attrs) = Inl TypeError"
  by (simp_all add: unpack2_def)

lemma header_loop_description:
  "header_loop ex analysis (PObj cls attrs # items) th = Inl TypeError"
  "header_loop ex analysis (PNone # items) th = Inl TypeError"
  by (cases th; simp add: unpack2_def)+

text \<open>
  Claim C1. The claim says that for every aggregation input the function returns a header
  of three sequences of equal length, one column per position tagged as a measure, and a
  row of that many values for every tracker. On the mapping
  \<^verbatim>\<open>{experiment: {analysis: {tracker: [5]}}}\<close>, whose analysis declares one measure, the
  function returns nothing: unpacking the measure at line 21 raises \<^verbatim>\<open>TypeError\<close>.
\<close>

theorem extract_measures_table_sample_raises:
  "extract_measures_table sample_results = Inl TypeError"
  by (simp add: extract_measures_table_def describe_def unpack2_def sample_defs)

text \<open>
  Claim C6. The claim says that the export of every result mapping writes a tracker as its
  label, an experiment as its identifier and an analysis as its name. On the mapping
  \<^verbatim>\<open>{experiment: {analysis: {tracker: [5]}}}\<close> the export raises \<^verbatim>\<open>TypeError\<close>: the
  experiment is a dictionary key, and the encoder is not asked about keys.
\<close>

theorem generate_json_document_sample_raises:
  "generate_json_document sample_results = Inl TypeError"
  by (simp add: generate_json_document_def sample_defs)

text \<open>Where the three classes stand as values, the export writes the flat strings.\<close>

lemma generate_json_document_values:
  "generate_json_document
     (PDict [(PStr ''best'', sample_tracker),
             (PStr ''all'', PList [sample_experiment, sample_analysis])])
   = Inr (JObj [(PStr ''best'', JStr ''T1''),
                (PStr ''all'', JArr [JStr ''baseline'', JStr ''accuracy''])])"
  by (simp add: generate_json_document_def StringifyEncoder_default_def sample_defs)

text \<open>
  Claim C7. The claim says that the tabular export renders a table with three header rows
  and one body row per tracker. On the empty result mapping, and on the sample mapping,
  nothing is rendered: the export raises \<^verbatim>\<open>TypeError\<close>.
\<close>

theorem generate_latex_document_raises:
  "generate_latex_document (PDict []) = Inl TypeError
   \<and> generate_latex_document sample_results = Inl TypeError"
  by (simp add: generate_latex_document_def extract_measures_table_def describe_def
      unpack2_def sample_defs)

text \<open>No input makes the tabular export return a table.\<close>

lemma generate_latex_document_never_returns:
  "\<exists>e. generate_latex_document results = Inl e"
  by (cases "extract_measures_table results")
     (auto simp: generate_latex_document_def split: prod.splits)

lemma plot_analysis_loop_same:
  "plot_analysis_loop items plots = Inr p \<Longrightarrow> p = plots"
proof (induction items arbitrary: plots)
  case Nil
  then show ?case by simp
next
  case (Cons item items)
  obtain analysis aresults where item: "item = (analysis, aresults)"
    by (cases item)
  from Cons.prems obtain cm where "plot_analysis_loop items plots = Inr p"
    by (auto simp: item and_then_eq_Inr split: prod.splits)
  then show ?case by (rule Cons.IH)
qed

lemma plot_experiment_loop_same:
  "plot_experiment_loop items plots = Inr p \<Longrightarrow> p = plots"
proof (induction items arbitrary: plots)
  case Nil
  then show ?case by simp
next
  case (Cons item items)
  obtain ex eresults where item: "item = (ex, eresults)"
    by (cases item)
  from Cons.prems obtain aitems q where
    q: "plot_analysis_loop aitems plots = Inr q" and rest: "plot_experiment_loop items q = Inr p"
    by (auto simp: item and_then_eq_Inr)
  from plot_analysis_loop_same [OF q] Cons.IH [OF rest] show ?case by simp
qed

text \<open>
  A call that returns has unpacked every item of every \<^verbatim>\<open>describe()\<close> in the mapping. So
  a mapping in which some analysis lists a description itself, or \<^verbatim>\<open>None\<close>, makes
  \<^verbatim>\<open>extract_plots\<close> raise.
\<close>

lemma plot_description_loop_unpacks:
  "plot_description_loop items cm = Inr r \<Longrightarrow> item \<in> set items \<Longrightarrow> \<exists>p. unpack2 item = Inr p"
proof (induction items arbitrary: cm)
  case Nil
  then show ?case by simp
next
  case (Cons x items)
  obtain curves measures' where cm: "cm = (curves, measures')"
    by (cases cm)
  from Cons.prems(1) obtain i description where
    x: "unpack2 x = Inr (i, description)"
    by (auto simp: cm and_then_eq_Inr)
  show ?case
  proof (cases "item = x")
    case True
    with x show ?thesis by blast
  next
    case False
    with Cons.prems(2) have mem: "item \<in> set items" by simp
    from Cons.prems(1) x obtain cm' where "plot_description_loop items cm' = Inr r"
      by (auto simp: cm split: if_splits)
    from Cons.IH [OF this mem] show ?thesis .
  qed
qed

lemma plot_analysis_loop_unpacks:
  "plot_analysis_loop aitems plots = Inr r \<Longrightarrow> (analysis, aresults) \<in> set aitems
     \<Longrightarrow> describe analysis = Inr d \<Longrightarrow> py_iter d = Inr items \<Longrightarrow> item \<in> set items
     \<Longrightarrow> \<exists>p. unpack2 item = Inr p"
proof (induction aitems arbitrary: plots)
  case Nil
  then show ?case by simp
next
  case (Cons x aitems)
  obtain a ar where x: "x = (a, ar)"
    by (cases x)
  from Cons.prems(1) obtain d' items' cm where
    run: "describe a = Inr d'" "py_iter d' = Inr items'"
         "plot_description_loop items' ([], []) = Inr cm"
         "plot_analysis_loop aitems plots = Inr r"
    by (auto simp: x and_then_eq_Inr split: prod.splits)
  show ?case
  proof (cases "(analysis, aresults) = x")
    case True
    with x run(1,2) Cons.prems(3,4) have "items' = items" by simp
    with run(3) Cons.prems(5) show ?thesis
      by (auto dest: plot_description_loop_unpacks)
  next
    case False
    with Cons.prems(2) have "(analysis, aresults) \<in> set aitems" by simp
    from Cons.IH [OF run(4) this Cons.prems(3) Cons.prems(4) Cons.prems(5)] show ?thesis .
  qed
qed

lemma plot_experiment_loop_unpacks:
  "plot_experiment_loop eitems plots = Inr r \<Longrightarrow> (ex, PDict aitems) \<in> set eitems
     \<Longrightarrow> (analysis, aresults) \<in> set aitems
     \<Longrightarrow> describe analysis = Inr d \<Longrightarrow> py_iter d = Inr items \<Longrightarrow> item \<in> set items
     \<Longrightarrow> \<exists>p. unpack2 item = Inr p"
proof (induction eitems arbitrary: plots)
  case Nil
  then show ?case by simp
next
  case (Cons x eitems)
  obtain e er where x: "x = (e, er)"
    by (cases x)
  from Cons.prems(1) obtain aitems' q where
    run: "py_items er = Inr aitems'" "plot_analysis_loop aitems' plots = Inr q"
         "plot_experiment_loop eitems q = Inr r"
    by (auto simp: x and_then_eq_Inr)
  show ?case
  proof (cases "(ex, PDict aitems) = x")
    case True
    with x run(1) have "aitems' = aitems" by auto
    with run(2) Cons.prems(3-6) show ?thesis
      by (auto dest: plot_analysis_loop_unpacks)
  next
    case False
    with Cons.prems(2) have "(ex, PDict aitems) \<in> set eitems" by simp
    from Cons.IH [OF run(3) this Cons.prems(3) Cons.prems(4) Cons.prems(5) Cons.prems(6)]
    show ?thesis .
  qed
qed

lemma extract_plots_raises:
  assumes "(ex, PDict aitems) \<in> set eitems" and "(analysis, aresults) \<in> set aitems"
    and "describe analysis = Inr d" and "py_iter d = Inr items" and "item \<in> set items"
    and "item = PNone \<or> item = PObj cls attrs"
  shows "\<exists>e. extract_plots (PDict eitems) = Inl e"
proof (cases "extract_plots (PDict eitems)")
  case (Inl e)
  then show ?thesis by blast
next
  case (Inr plots)
  then have "plot_experiment_loop eitems [] = Inr plots"
    by (simp add: extract_plots_def)
  from plot_experiment_loop_unpacks [OF this assms(1-5)]
  obtain p where "unpack2 item = Inr p" by blast
  with assms(6) unpack2_description show ?thesis by auto
qed

text \<open>
  Claim C8, as stated: analyses with a number of measures other than two get no plot, and
  exactly two measures of an analysis are what is treated as an axis pair. An analysis
  with exactly two measures fares no differently from the others: when \<^verbatim>\<open>describe()\<close>
  lists the two measures themselves the call raises \<^verbatim>\<open>TypeError\<close>, and when it lists
  them in the form the loop can unpack the call returns the empty mapping. Nothing is
  paired and no plot is produced.
\<close>

theorem extract_plots_two_measures_no_pair:
  "measure_count (analysis_describing [sample_measure, sample_measure]) = 2
   \<and> extract_plots (results_with (analysis_describing [sample_measure, sample_measure]))
       = Inl TypeError
   \<and> measure_count (analysis_describing [indexed 0 sample_measure, indexed 1 sample_measure]) = 2
   \<and> extract_plots (results_with
         (analysis_describing [indexed 0 sample_measure, indexed 1 sample_measure])) = Inr []"
  by (simp add: measure_count_def extract_plots_def describe_def unpack2_def sample_defs)

text \<open>
  Claim C8, amended. For every analysis, whatever the number of measures that its
  \<^verbatim>\<open>describe()\<close> yields (none, one, two, three or more), plot extraction produces no plot:
  a call of \<^verbatim>\<open>extract_plots\<close> produces nothing, and whenever it returns the mapping it
  returns is empty. The branch for exactly two measures is the only one that looks at
  their number, and it builds nothing.
\<close>

theorem extract_plots_produces_nothing:
  "produced (extract_plots results) = []
   \<and> (extract_plots results = Inr plots \<longrightarrow> plots = [])"
proof -
  have returned: "p = []" if "extract_plots results = Inr p" for p
    using that by (auto simp: extract_plots_def and_then_eq_Inr dest: plot_experiment_loop_same)
  have "produced (extract_plots results) = []"
    by (cases "extract_plots results") (simp_all add: produced_def returned)
  with returned show ?thesis by blast
qed

theorem extract_plots_produces_nothing_witness:
  "measure_count (analysis_describing []) = 0
   \<and> extract_plots (results_with (analysis_describing [])) = Inr []
   \<and> measure_count (analysis_describing [indexed 0 sample_measure]) = 1
   \<and> extract_plots (results_with (analysis_describing [indexed 0 sample_measure])) = Inr []
   \<and> measure_count (analysis_describing
         [indexed 0 sample_measure, indexed 1 sample_measure, indexed 2 sample_measure]) = 3
   \<and> extract_plots (results_with (analysis_describing
         [indexed 0 sample_measure, indexed 1 sample_measure, indexed 2 sample_measure])) = Inr []
   \<and> measure_count sample_analysis = 1
   \<and> extract_plots sample_results = Inl TypeError
   \<and> produced (extract_plots sample_results) = []
   \<and> measure_count (analysis_describing [sample_measure, sample_measure, sample_measure]) = 3
   \<and> extract_plots (results_with
         (analysis_describing [sample_measure, sample_measure, sample_measure])) = Inl TypeError
   \<and> produced (extract_plots (results_with
         (analysis_describing [sample_measure, sample_measure, sample_measure]))) = []
   \<and> measure_count (analysis_describing [PNone]) = 0
   \<and> extract_plots (results_with (analysis_describing [PNone])) = Inl TypeError
   \<and> produced (extract_plots (results_with (analysis_describing [PNone]))) = []"
proof -
  let ?none = "results_with (analysis_describing [])"
  let ?one = "results_with (analysis_describing [indexed 0 sample_measure])"
  let ?three = "results_with (analysis_describing
                  [indexed 0 sample_measure, indexed 1 sample_measure, indexed 2 sample_measure])"
  let ?bare3 = "results_with (analysis_describing [sample_measure, sample_measure, sample_measure])"
  let ?absent = "results_with (analysis_describing [PNone])"
  have counts:
    "measure_count (analysis_describing []) = 0"
    "measure_count (analysis_describing [indexed 0 sample_measure]) = 1"
    "measure_count (analysis_describing
       [indexed 0 sample_measure, indexed 1 sample_measure, indexed 2 sample_measure]) = 3"
    "measure_count sample_analysis = 1"
    "measure_count (analysis_describing [sample_measure, sample_measure, sample_measure]) = 3"
    "measure_count (analysis_describing [PNone]) = 0"
    by (simp_all add: measure_count_def describe_def sample_defs)
  have runs:
    "extract_plots ?none = Inr []"
    "extract_plots ?one = Inr []"
    "extract_plots ?three = Inr []"
    by (simp_all add: extract_plots_def describe_def unpack2_def sample_defs)
  have raises:
    "extract_plots sample_results = Inl TypeError"
    "extract_plots ?bare3 = Inl TypeError"
    "extract_plots ?absent = Inl TypeError"
    by (simp_all add: extract_plots_def describe_def unpack2_def sample_defs)
  from extract_plots_produces_nothing [of ?none "[]"] runs(1)
  have a: "produced (extract_plots ?none) = []" by blast
  from extract_plots_produces_nothing [of ?one "[]"] runs(2)
  have b: "produced (extract_plots ?one) = []" by blast
  from extract_plots_produces_nothing [of ?three "[]"] runs(3)
  have c: "produced (extract_plots ?three) = []" by blast
  from extract_plots_produces_nothing [of sample_results "[]"]
  have d: "produced (extract_plots sample_results) = []" by blast
  from extract_plots_produces_nothing [of ?bare3 "[]"]
  have e: "produced (extract_plots ?bare3) = []" by blast
  from extract_plots_produces_nothing [of ?absent "[]"]
  have f: "produced (extract_plots ?absent) = []" by blast
  from counts runs raises d e f show ?thesis
    by blast
qed

section \<open>Properties of the command line\<close>

subsection \<open>Logging and the outside world\<close>

lemma calls_info [simp]: "calls (info w m a) = calls w"
  by (simp add: info_def log_record_def)

lemma calls_error [simp]: "calls (error w m a) = calls w"
  by (simp add: error_def log_record_def)

lemma calls_called [simp]: "calls (called w c) = calls w @ [c]"
  by (simp add: called_def)

lemma files_info [simp]: "files (info w m a) = files w"
  by (simp add: info_def log_record_def)

lemma files_error [simp]: "files (error w m a) = files w"
  by (simp add: error_def log_record_def)

lemma files_called [simp]: "files (called w c) = files w"
  by (simp add: called_def)

lemma level_info [simp]: "level (info w m a) = level w"
  by (simp add: info_def log_record_def)

lemma level_error [simp]: "level (error w m a) = level w"
  by (simp add: error_def log_record_def)

lemma level_called [simp]: "level (called w c) = level w"
  by (simp add: called_def)

lemma log_called [simp]: "log (called w c) = log w"
  by (simp add: called_def)

lemma log_info_subset: "set (log w) \<subseteq> set (log (info w m a))"
  by (auto simp: info_def log_record_def)

lemma log_error_subset: "set (log w) \<subseteq> set (log (error w m a))"
  by (auto simp: error_def log_record_def)

lemma log_error: "level w \<le> ERROR \<Longrightarrow> log (error w m a) = log w @ [(ERROR, m, a)]"
  by (simp add: error_def log_record_def)

lemma error_records_info [simp]: "error_records (info w m a) = error_records w"
  by (simp add: error_records_def info_def log_record_def INFO_def ERROR_def)

lemma error_records_called [simp]: "error_records (called w c) = error_records w"
  by (simp add: error_records_def)

subsection \<open>The evaluation matrix\<close>

lemma run_units_append:
  "run_units env (xs @ ys) =
     (case fst (run_units env xs) of
        Some err \<Rightarrow> run_units env xs
      | None \<Rightarrow> (fst (run_units env ys), snd (run_units env xs) @ snd (run_units env ys)))"
  by (induction xs) (auto split: option.splits)

lemma run_units_all_return:
  "\<forall>u \<in> set us. raises env u = None \<Longrightarrow> run_units env us = (None, us)"
  by (induction us) auto

lemma run_units_first_failure:
  "\<forall>u' \<in> set pre. raises env u' = None \<Longrightarrow> raises env u = Some err
     \<Longrightarrow> run_units env (pre @ u # post) = (Some err, pre @ [u])"
  by (induction pre) auto

lemma evaluate_sequences_run:
  "fst (evaluate_sequences env t e ds w) = fst (run_units env (map (Execute e t) ds))
   \<and> calls (snd (evaluate_sequences env t e ds w))
       = calls w @ snd (run_units env (map (Execute e t) ds))
   \<and> error_records (snd (evaluate_sequences env t e ds w)) = error_records w"
  by (induction ds arbitrary: w) (auto split: option.splits)

lemma evaluate_experiments_run:
  "fst (evaluate_experiments env ws t es w)
     = fst (run_units env (concat (map (\<lambda>e. map (Execute e t) (workspace_dataset ws)) es)))
   \<and> calls (snd (evaluate_experiments env ws t es w))
       = calls w @ snd (run_units env (concat (map (\<lambda>e. map (Execute e t) (workspace_dataset ws)) es)))
   \<and> error_records (snd (evaluate_experiments env ws t es w)) = error_records w"
proof (induction es arbitrary: w)
  case Nil
  show ?case by simp
next
  case (Cons e es)
  let ?w = "info w '' |== > Running experiment %s'' [PStr (experiment_identifier e)]"
  obtain r w1 where run: "evaluate_sequences env t e (workspace_dataset ws) ?w = (r, w1)"
    by (cases "evaluate_sequences env t e (workspace_dataset ws) ?w")
  from evaluate_sequences_run [of env t e "workspace_dataset ws" ?w] run
  have inner: "fst (run_units env (map (Execute e t) (workspace_dataset ws))) = r"
    "calls w1 = calls w @ snd (run_units env (map (Execute e t) (workspace_dataset ws)))"
    "error_records w1 = error_records w"
    by auto
  show ?case
  proof (cases r)
    case None
    with run inner Cons.IH [of w1] show ?thesis
      by (simp add: run_units_append)
  next
    case (Some err)
    with run inner show ?thesis
      by (simp add: run_units_append)
  qed
qed

lemma evaluate_trackers_run:
  "fst (evaluate_trackers env ws ts w)
     = fst (run_units env (units ts (workspace_stack ws) (workspace_dataset ws)))
   \<and> calls (snd (evaluate_trackers env ws ts w))
       = calls w @ snd (run_units env (units ts (workspace_stack ws) (workspace_dataset ws)))
   \<and> error_records (snd (evaluate_trackers env ws ts w)) = error_records w"
proof (induction ts arbitrary: w)
  case Nil
  show ?case by (simp add: units_def)
next
  case (Cons t ts)
  let ?w = "info w '' |= > Evaluating tracker %s'' [PStr (tracker_identifier t)]"
  let ?us = "concat (map (\<lambda>e. map (Execute e t) (workspace_dataset ws)) (workspace_stack ws))"
  obtain r w1 where run: "evaluate_experiments env ws t (workspace_stack ws) ?w = (r, w1)"
    by (cases "evaluate_experiments env ws t (workspace_stack ws) ?w")
  from evaluate_experiments_run [of env ws t "workspace_stack ws" ?w] run
  have inner: "fst (run_units env ?us) = r"
    "calls w1 = calls w @ snd (run_units env ?us)"
    "error_records w1 = error_records w"
    by simp_all
  have split: "units (t # ts) (workspace_stack ws) (workspace_dataset ws)
                 = ?us @ units ts (workspace_stack ws) (workspace_dataset ws)"
    by (simp add: units_def)
  show ?case
  proof (cases r)
    case None
    with run inner Cons.IH [of w1] show ?thesis
      by (simp add: split run_units_append)
  next
    case (Some err)
    with run inner show ?thesis
      by (simp add: split run_units_append)
  qed
qed

lemma do_evaluate_run:
  assumes "open_workspace env (config_workspace config) = ws"
    and "select_trackers (load_trackers env (workspace_registry ws @ config_registry config))
           (config_trackers config) = Inr trackers"
  shows "fst (do_evaluate env config w)
           = fst (run_units env (units trackers (workspace_stack ws) (workspace_dataset ws)))"
    and "calls (snd (do_evaluate env config w))
           = calls w @ snd (run_units env (units trackers (workspace_stack ws) (workspace_dataset ws)))"
    and "error_records (snd (do_evaluate env config w)) = error_records w"
proof -
  let ?w = "info (info w (''Loaded workspace in '' @ quoted ''%s'') [PStr (config_workspace config)])
              ''Found data for %d trackers''
              [PInt (int (length (load_trackers env (workspace_registry ws @ config_registry config))))]"
  obtain r w1 where run: "evaluate_trackers env ws trackers ?w = (r, w1)"
    by (cases "evaluate_trackers env ws trackers ?w")
  from evaluate_trackers_run [of env ws trackers ?w] run
  have inner: "fst (run_units env (units trackers (workspace_stack ws) (workspace_dataset ws))) = r"
    "calls w1 = calls w @ snd (run_units env (units trackers (workspace_stack ws) (workspace_dataset ws)))"
    "error_records w1 = error_records w"
    by auto
  have eval: "do_evaluate env config w =
                (case r of Some e \<Rightarrow> (Some e, w1)
                 | None \<Rightarrow> (None, info w1 ''Evaluation concluded successfuly'' []))"
    using assms run by (simp add: do_evaluate_def Let_def split: option.splits)
  show "fst (do_evaluate env config w)
           = fst (run_units env (units trackers (workspace_stack ws) (workspace_dataset ws)))"
    using inner by (simp add: eval split: option.splits)
  show "calls (snd (do_evaluate env config w))
           = calls w @ snd (run_units env (units trackers (workspace_stack ws) (workspace_dataset ws)))"
    using inner by (simp add: eval split: option.splits)
  show "error_records (snd (do_evaluate env config w)) = error_records w"
    using inner by (simp add: eval split: option.splits)
qed

text \<open>
  Claim C2, as stated: when an experiment's \<^verbatim>\<open>execute\<close> call raises, the failure is caught
  and logged and the run goes on with the next sequence, so the matrix run always
  completes. In the sample workspace the experiment raises on the first sequence: the
  exception leaves \<^verbatim>\<open>do_evaluate\<close>, the second sequence is never executed and nothing is
  logged.
\<close>

theorem do_evaluate_failure_aborts:
  "fst (do_evaluate sample_env sample_config sample_world) = Some (Raised ''ExecutionError'')
   \<and> calls (snd (do_evaluate sample_env sample_config sample_world))
       = [Execute (Experiment ''baseline'') (Tracker ''t1'') (Sequence ''ball'')]
   \<and> log (snd (do_evaluate sample_env sample_config sample_world)) = []"
  by (simp add: do_evaluate_def select_trackers_def registry_get_def split_def strip_def
      whitespace_def workspace_defs logging_defs)

text \<open>
  Claim C2, amended. When the trackers named on the command line are all registered,
  \<^verbatim>\<open>do_evaluate\<close> executes the units in the order trackers, experiments, sequences. If
  an \<^verbatim>\<open>execute\<close> call raises, the exception leaves \<^verbatim>\<open>do_evaluate\<close>: the units before
  it and the failing unit are the only ones executed, and no error record is logged. If no
  call raises, every unit of the matrix is executed and the function returns.
\<close>

theorem do_evaluate_stops_at_first_failure:
  assumes "open_workspace env (config_workspace config) = ws"
    and "select_trackers (load_trackers env (workspace_registry ws @ config_registry config))
           (config_trackers config) = Inr trackers"
  shows "(units trackers (workspace_stack ws) (workspace_dataset ws) = pre @ u # post
            \<and> (\<forall>u' \<in> set pre. raises env u' = None) \<and> raises env u = Some err
          \<longrightarrow> fst (do_evaluate env config w) = Some err
              \<and> calls (snd (do_evaluate env config w)) = calls w @ pre @ [u]
              \<and> error_records (snd (do_evaluate env config w)) = error_records w)
       \<and> ((\<forall>u' \<in> set (units trackers (workspace_stack ws) (workspace_dataset ws)).
              raises env u' = None)
          \<longrightarrow> fst (do_evaluate env config w) = None
              \<and> calls (snd (do_evaluate env config w))
                  = calls w @ units trackers (workspace_stack ws) (workspace_dataset ws))"
proof (intro conjI impI)
  assume fail: "units trackers (workspace_stack ws) (workspace_dataset ws) = pre @ u # post
                  \<and> (\<forall>u' \<in> set pre. raises env u' = None) \<and> raises env u = Some err"
  then have run: "run_units env (units trackers (workspace_stack ws) (workspace_dataset ws))
                    = (Some err, pre @ [u])"
    by (simp add: run_units_first_failure)
  show "fst (do_evaluate env config w) = Some err"
    using do_evaluate_run(1) [OF assms] run by simp
  show "calls (snd (do_evaluate env config w)) = calls w @ pre @ [u]"
    using do_evaluate_run(2) [OF assms] run by simp
  show "error_records (snd (do_evaluate env config w)) = error_records w"
    using do_evaluate_run(3) [OF assms] .
next
  assume "\<forall>u' \<in> set (units trackers (workspace_stack ws) (workspace_dataset ws)).
            raises env u' = None"
  then have run: "run_units env (units trackers (workspace_stack ws) (workspace_dataset ws))
                    = (None, units trackers (workspace_stack ws) (workspace_dataset ws))"
    by (rule run_units_all_return)
  show "fst (do_evaluate env config w) = None"
    using do_evaluate_run(1) [OF assms] run by simp
  show "calls (snd (do_evaluate env config w))
          = calls w @ units trackers (workspace_stack ws) (workspace_dataset ws)"
    using do_evaluate_run(2) [OF assms] run by simp
qed

theorem do_evaluate_stops_at_first_failure_witness:
  "open_workspace sample_env (config_workspace sample_config) = sample_workspace
   \<and> select_trackers (load_trackers sample_env
                        (workspace_registry sample_workspace @ config_registry sample_config))
       (config_trackers sample_config) = Inr [Tracker ''t1'']
   \<and> units [Tracker ''t1''] (workspace_stack sample_workspace) (workspace_dataset sample_workspace)
       = [] @ Execute (Experiment ''baseline'') (Tracker ''t1'') (Sequence ''ball'')
            # [Execute (Experiment ''baseline'') (Tracker ''t1'') (Sequence ''car'')]
   \<and> raises sample_env (Execute (Experiment ''baseline'') (Tracker ''t1'') (Sequence ''ball''))
       = Some (Raised ''ExecutionError'')
   \<and> fst (do_evaluate sample_env sample_config sample_world) = Some (Raised ''ExecutionError'')
   \<and> calls (snd (do_evaluate sample_env sample_config sample_world))
       = calls sample_world @ [] @ [Execute (Experiment ''baseline'') (Tracker ''t1'') (Sequence ''ball'')]
   \<and> error_records (snd (do_evaluate sample_env sample_config sample_world))
       = error_records sample_world
   \<and> fst (do_evaluate quiet_env sample_config sample_world) = None
   \<and> calls (snd (do_evaluate quiet_env sample_config sample_world))
       = calls sample_world
         @ units [Tracker ''t1''] (workspace_stack sample_workspace) (workspace_dataset sample_workspace)"
proof -
  let ?ball = "Execute (Experiment ''baseline'') (Tracker ''t1'') (Sequence ''ball'')"
  let ?car = "Execute (Experiment ''baseline'') (Tracker ''t1'') (Sequence ''car'')"
  let ?units = "units [Tracker ''t1''] (workspace_stack sample_workspace)
                  (workspace_dataset sample_workspace)"
  have ws: "open_workspace sample_env (config_workspace sample_config) = sample_workspace"
    by (simp add: sample_env_def)
  have sel: "select_trackers (load_trackers sample_env
                (workspace_registry sample_workspace @ config_registry sample_config))
              (config_trackers sample_config) = Inr [Tracker ''t1'']"
    by (simp add: select_trackers_def registry_get_def split_def strip_def whitespace_def
        workspace_defs)
  have ws': "open_workspace quiet_env (config_workspace sample_config) = sample_workspace"
    by (simp add: quiet_env_def sample_env_def)
  have sel': "select_trackers (load_trackers quiet_env
                (workspace_registry sample_workspace @ config_registry sample_config))
              (config_trackers sample_config) = Inr [Tracker ''t1'']"
    by (simp add: select_trackers_def registry_get_def split_def strip_def whitespace_def
        workspace_defs)
  have us: "?units = [] @ ?ball # [?car]"
    by (simp add: units_def sample_workspace_def)
  have pre: "\<forall>u' \<in> set []. raises sample_env u' = None"
    by simp
  have fails: "raises sample_env ?ball = Some (Raised ''ExecutionError'')"
    by (simp add: sample_env_def)
  have quiet: "\<forall>u' \<in> set ?units. raises quiet_env u' = None"
    by (simp add: units_def workspace_defs)
  from do_evaluate_stops_at_first_failure
         [OF ws sel, of "[]" ?ball "[?car]" "Raised ''ExecutionError''" sample_world]
       us pre fails
  have first: "fst (do_evaluate sample_env sample_config sample_world) = Some (Raised ''ExecutionError'')
       \<and> calls (snd (do_evaluate sample_env sample_config sample_world))
           = calls sample_world @ [] @ [?ball]
       \<and> error_records (snd (do_evaluate sample_env sample_config sample_world))
           = error_records sample_world"
    by blast
  from do_evaluate_stops_at_first_failure
         [OF ws' sel', of "[]" ?ball "[?car]" "Raised ''ExecutionError''" sample_world]
       quiet
  have second: "fst (do_evaluate quiet_env sample_config sample_world) = None
       \<and> calls (snd (do_evaluate quiet_env sample_config sample_world)) = calls sample_world @ ?units"
    by blast
  from ws sel us fails first second show ?thesis
    by blast
qed

text \<open>
  Claim C10. When \<^verbatim>\<open>evaluate\<close> is given no trackers argument, \<^verbatim>\<open>config.trackers\<close> is
  \<^verbatim>\<open>None\<close> and \<^verbatim>\<open>do_evaluate\<close> raises when it splits the list: the function ends with
  \<^verbatim>\<open>AttributeError\<close>, it executes nothing, and it logs no error record.
\<close>

theorem do_evaluate_without_trackers:
  "config_trackers config = None \<Longrightarrow>
     fst (do_evaluate env config w) = Some AttributeError
     \<and> calls (snd (do_evaluate env config w)) = calls w
     \<and> error_records (snd (do_evaluate env config w)) = error_records w"
  by (simp add: do_evaluate_def select_trackers_def Let_def)

theorem do_evaluate_without_trackers_witness:
  "config_trackers (sample_config\<lparr>config_trackers := None\<rparr>) = None
   \<and> fst (do_evaluate sample_env (sample_config\<lparr>config_trackers := None\<rparr>) sample_world)
       = Some AttributeError
   \<and> calls (snd (do_evaluate sample_env (sample_config\<lparr>config_trackers := None\<rparr>) sample_world))
       = calls sample_world
   \<and> error_records (snd (do_evaluate sample_env (sample_config\<lparr>config_trackers := None\<rparr>) sample_world))
       = error_records sample_world"
proof -
  have none: "config_trackers (sample_config\<lparr>config_trackers := None\<rparr>) = None"
    by simp
  from do_evaluate_without_trackers [OF none, of sample_env sample_world] none
  show ?thesis by blast
qed

subsection \<open>Scanning before packaging\<close>

lemma scan_sequences_calls:
  "calls (snd (snd (scan_sequences env t e ds (af, cf, w)))) = calls w @ map (Scan e t) ds"
  by (induction ds arbitrary: af cf w) simp_all

lemma scan_sequences_files:
  "files (snd (snd (scan_sequences env t e ds (af, cf, w)))) = files w"
  by (induction ds arbitrary: af cf w) simp_all

lemma scan_sequences_level:
  "level (snd (snd (scan_sequences env t e ds (af, cf, w)))) = level w"
  by (induction ds arbitrary: af cf w) simp_all

lemma scan_sequences_can_finish:
  "fst (snd (scan_sequences env t e ds (af, cf, w)))
     = (cf \<and> list_all (\<lambda>s. fst (experiment_scan env e t s)) ds)"
  by (induction ds arbitrary: af cf w) auto

lemma scan_sequences_log_subset:
  "set (log w) \<subseteq> set (log (snd (snd (scan_sequences env t e ds (af, cf, w)))))"
proof (induction ds arbitrary: af cf w)
  case Nil
  show ?case by simp
next
  case (Cons s ds)
  let ?af = "af @ map (collected t e s) (snd (experiment_scan env e t s))"
  let ?w = "called w (Scan e t s)"
  let ?w' = "error ?w '' X= > Results are not complete for experiment %s, sequence %s''
               [PStr (experiment_identifier e), PStr (sequence_name s)]"
  show ?case
  proof (cases "fst (experiment_scan env e t s)")
    case True
    have "set (log w) \<subseteq> set (log ?w)" by simp
    also have "\<dots> \<subseteq> set (log (snd (snd (scan_sequences env t e ds (?af, cf, ?w)))))"
      by (rule Cons.IH)
    finally show ?thesis using True by simp
  next
    case False
    have "set (log w) \<subseteq> set (log ?w')"
      using log_error_subset [of ?w] by simp
    also have "\<dots> \<subseteq> set (log (snd (snd (scan_sequences env t e ds (?af, False, ?w')))))"
      by (rule Cons.IH)
    finally show ?thesis using False by simp
  qed
qed

lemma scan_sequences_reports:
  "level w \<le> ERROR \<Longrightarrow> s \<in> set ds \<Longrightarrow> \<not> fst (experiment_scan env e t s)
     \<Longrightarrow> incomplete_record e s \<in> set (log (snd (snd (scan_sequences env t e ds (af, cf, w)))))"
proof (induction ds arbitrary: af cf w)
  case Nil
  then show ?case by simp
next
  case (Cons d ds)
  show ?case
  proof (cases "s = d")
    case True
    let ?w = "error (called w (Scan e t d))
                '' X= > Results are not complete for experiment %s, sequence %s''
                [PStr (experiment_identifier e), PStr (sequence_name d)]"
    have "incomplete_record e d \<in> set (log ?w)"
      using Cons.prems(1) by (simp add: log_error incomplete_record_def)
    then show ?thesis
      using True Cons.prems(3) scan_sequences_log_subset [of ?w env t e ds]
      by auto
  next
    case False
    with Cons.prems have "s \<in> set ds" by simp
    with Cons.IH Cons.prems show ?thesis by simp
  qed
qed

lemma scan_experiments_calls:
  "calls (snd (snd (scan_experiments env ws t es (af, cf, w))))
     = calls w @ scans t es (workspace_dataset ws)"
proof (induction es arbitrary: af cf w)
  case Nil
  show ?case by (simp add: scans_def)
next
  case (Cons e es)
  let ?w = "info w '' |= > Scanning experiment %s'' [PStr (experiment_identifier e)]"
  obtain af1 cf1 w1 where
    inner: "scan_sequences env t e (workspace_dataset ws) (af, cf, ?w) = (af1, cf1, w1)"
    by (cases "scan_sequences env t e (workspace_dataset ws) (af, cf, ?w)")
  from scan_sequences_calls [of env t e "workspace_dataset ws" af cf ?w] inner
  have "calls w1 = calls w @ map (Scan e t) (workspace_dataset ws)" by simp
  with Cons.IH [of af1 cf1 w1] inner show ?case
    by (simp add: scans_def)
qed

lemma scan_experiments_files:
  "files (snd (snd (scan_experiments env ws t es (af, cf, w)))) = files w"
proof (induction es arbitrary: af cf w)
  case Nil
  show ?case by simp
next
  case (Cons e es)
  let ?w = "info w '' |= > Scanning experiment %s'' [PStr (experiment_identifier e)]"
  obtain af1 cf1 w1 where
    inner: "scan_sequences env t e (workspace_dataset ws) (af, cf, ?w) = (af1, cf1, w1)"
    by (cases "scan_sequences env t e (workspace_dataset ws) (af, cf, ?w)")
  from scan_sequences_files [of env t e "workspace_dataset ws" af cf ?w] inner
  have "files w1 = files w" by simp
  with Cons.IH [of af1 cf1 w1] inner show ?case by simp
qed

lemma scan_experiments_level:
  "level (snd (snd (scan_experiments env ws t es (af, cf, w)))) = level w"
proof (induction es arbitrary: af cf w)
  case Nil
  show ?case by simp
next
  case (Cons e es)
  let ?w = "info w '' |= > Scanning experiment %s'' [PStr (experiment_identifier e)]"
  obtain af1 cf1 w1 where
    inner: "scan_sequences env t e (workspace_dataset ws) (af, cf, ?w) = (af1, cf1, w1)"
    by (cases "scan_sequences env t e (workspace_dataset ws) (af, cf, ?w)")
  from scan_sequences_level [of env t e "workspace_dataset ws" af cf ?w] inner
  have "level w1 = level w" by simp
  with Cons.IH [of af1 cf1 w1] inner show ?case by simp
qed

lemma scan_experiments_can_finish:
  "fst (snd (scan_experiments env ws t es (af, cf, w)))
     = (cf \<and> list_all (\<lambda>e. list_all (\<lambda>s. fst (experiment_scan env e t s)) (workspace_dataset ws)) es)"
proof (induction es arbitrary: af cf w)
  case Nil
  show ?case by simp
next
  case (Cons e es)
  let ?w = "info w '' |= > Scanning experiment %s'' [PStr (experiment_identifier e)]"
  obtain af1 cf1 w1 where
    inner: "scan_sequences env t e (workspace_dataset ws) (af, cf, ?w) = (af1, cf1, w1)"
    by (cases "scan_sequences env t e (workspace_dataset ws) (af, cf, ?w)")
  from scan_sequences_can_finish [of env t e "workspace_dataset ws" af cf ?w] inner
  have "cf1 = (cf \<and> list_all (\<lambda>s. fst (experiment_scan env e t s)) (workspace_dataset ws))"
    by simp
  with Cons.IH [of af1 cf1 w1] inner show ?case by auto
qed

lemma scan_experiments_log_subset:
  "set (log w) \<subseteq> set (log (snd (snd (scan_experiments env ws t es (af, cf, w)))))"
proof (induction es arbitrary: af cf w)
  case Nil
  show ?case by simp
next
  case (Cons e es)
  let ?w = "info w '' |= > Scanning experiment %s'' [PStr (experiment_identifier e)]"
  obtain af1 cf1 w1 where
    inner: "scan_sequences env t e (workspace_dataset ws) (af, cf, ?w) = (af1, cf1, w1)"
    by (cases "scan_sequences env t e (workspace_dataset ws) (af, cf, ?w)")
  from scan_sequences_log_subset [of ?w env t e "workspace_dataset ws" af cf] inner
  have "set (log ?w) \<subseteq> set (log w1)" by simp
  with log_info_subset [of w] have "set (log w) \<subseteq> set (log w1)" by blast
  also have "\<dots> \<subseteq> set (log (snd (snd (scan_experiments env ws t es (af1, cf1, w1)))))"
    by (rule Cons.IH)
  finally show ?case using inner by simp
qed

lemma scan_experiments_reports:
  "level w \<le> ERROR \<Longrightarrow> e \<in> set es \<Longrightarrow> s \<in> set (workspace_dataset ws)
     \<Longrightarrow> \<not> fst (experiment_scan env e t s)
     \<Longrightarrow> incomplete_record e s \<in> set (log (snd (snd (scan_experiments env ws t es (af, cf, w)))))"
proof (induction es arbitrary: af cf w)
  case Nil
  then show ?case by simp
next
  case (Cons d es)
  let ?w = "info w '' |= > Scanning experiment %s'' [PStr (experiment_identifier d)]"
  obtain af1 cf1 w1 where
    inner: "scan_sequences env t d (workspace_dataset ws) (af, cf, ?w) = (af1, cf1, w1)"
    by (cases "scan_sequences env t d (workspace_dataset ws) (af, cf, ?w)")
  from scan_sequences_level [of env t d "workspace_dataset ws" af cf ?w] inner Cons.prems(1)
  have lv: "level w1 \<le> ERROR" by simp
  show ?case
  proof (cases "e = d")
    case True
    from scan_sequences_reports [of ?w s "workspace_dataset ws" env d t af cf]
         Cons.prems True inner
    have "incomplete_record e s \<in> set (log w1)" by simp
    with scan_experiments_log_subset [of w1 env ws t es af1 cf1] inner show ?thesis
      by auto
  next
    case False
    with Cons.prems have "e \<in> set es" by simp
    from Cons.IH [OF lv this Cons.prems(3) Cons.prems(4), of af1 cf1] inner
    show ?thesis by simp
  qed
qed

subsection \<open>Packaging\<close>

lemma do_pack_incomplete:
  assumes "open_workspace env (config_workspace config) = ws"
    and "registry_get (load_trackers env (workspace_registry ws @ config_registry config))
           (config_tracker config) = Inr tracker"
    and "e \<in> set (workspace_stack ws)" and "s \<in> set (workspace_dataset ws)"
    and "\<not> fst (experiment_scan env e tracker s)"
  shows "do_pack env config w =
           (None,
            error (snd (snd (scan_experiments env ws tracker (workspace_stack ws)
                     ([], True,
                      info (info (info w (''Loaded workspace in '' @ quoted ''%s'')
                                    [PStr (config_workspace config)])
                              ''Found data for %d trackers''
                              [PInt (int (length (load_trackers env
                                 (workspace_registry ws @ config_registry config))))])
                        ''Packaging results for tracker %s''
                        [PStr (tracker_identifier tracker)]))))
              ''Unable to continue, experiments not complete'' [])"
proof -
  let ?w3 = "info (info (info w (''Loaded workspace in '' @ quoted ''%s'')
                            [PStr (config_workspace config)])
                      ''Found data for %d trackers''
                      [PInt (int (length (load_trackers env
                         (workspace_registry ws @ config_registry config))))])
                ''Packaging results for tracker %s'' [PStr (tracker_identifier tracker)]"
  obtain af cf w4 where
    scan: "scan_experiments env ws tracker (workspace_stack ws) ([], True, ?w3) = (af, cf, w4)"
    by (cases "scan_experiments env ws tracker (workspace_stack ws) ([], True, ?w3)")
  have "\<not> list_all (\<lambda>e. list_all (\<lambda>s. fst (experiment_scan env e tracker s))
                        (workspace_dataset ws)) (workspace_stack ws)"
    using assms(3-5) by (auto simp: list_all_iff)
  with scan_experiments_can_finish [of env ws tracker "workspace_stack ws" "[]" True ?w3] scan
  have "\<not> cf" by simp
  with assms(1,2) scan show ?thesis
    by (simp add: do_pack_def Let_def)
qed

text \<open>
  Claim C3, as stated: when a unit's scan reports incomplete results, packaging fails with
  \<^verbatim>\<open>IncompleteResultsError\<close>. In the sample workspace the results for \<^verbatim>\<open>ball\<close> are
  incomplete, and \<^verbatim>\<open>do_pack\<close> ends with no exception at all: it returns.
\<close>

theorem do_pack_incomplete_returns:
  "\<not> fst (experiment_scan sample_env (Experiment ''baseline'') (Tracker ''t1'') (Sequence ''ball''))
   \<and> fst (do_pack sample_env pack_config sample_world) = None"
  by (simp add: do_pack_def registry_get_def workspace_defs logging_defs)

text \<open>
  Claim C3, amended. When the tracker is registered and the scan of some unit reports
  incomplete results, \<^verbatim>\<open>do_pack\<close> raises nothing and returns; no archive is created (the
  files on disk are unchanged); every unit of the matrix is scanned, in order; and, the
  logger letting errors through, each incomplete unit has its own error record in the
  log, followed by the record that packaging cannot continue.
\<close>

theorem do_pack_scans_all_then_returns:
  assumes "open_workspace env (config_workspace config) = ws"
    and "registry_get (load_trackers env (workspace_registry ws @ config_registry config))
           (config_tracker config) = Inr tracker"
    and "e \<in> set (workspace_stack ws)" and "s \<in> set (workspace_dataset ws)"
    and "\<not> fst (experiment_scan env e tracker s)"
    and "level w \<le> ERROR"
  shows "fst (do_pack env config w) = None
       \<and> files (snd (do_pack env config w)) = files w
       \<and> calls (snd (do_pack env config w))
           = calls w @ scans tracker (workspace_stack ws) (workspace_dataset ws)
       \<and> (\<forall>e' \<in> set (workspace_stack ws). \<forall>s' \<in> set (workspace_dataset ws).
             \<not> fst (experiment_scan env e' tracker s')
             \<longrightarrow> incomplete_record e' s' \<in> set (log (snd (do_pack env config w))))
       \<and> last (log (snd (do_pack env config w)))
           = (ERROR, ''Unable to continue, experiments not complete'', [])"
proof -
  let ?w3 = "info (info (info w (''Loaded workspace in '' @ quoted ''%s'')
                            [PStr (config_workspace config)])
                      ''Found data for %d trackers''
                      [PInt (int (length (load_trackers env
                         (workspace_registry ws @ config_registry config))))])
                ''Packaging results for tracker %s'' [PStr (tracker_identifier tracker)]"
  let ?w4 = "snd (snd (scan_experiments env ws tracker (workspace_stack ws) ([], True, ?w3)))"
  let ?msg = "''Unable to continue, experiments not complete''"
  have pack: "do_pack env config w = (None, error ?w4 ?msg [])"
    using do_pack_incomplete [OF assms(1-5)] .
  have lv3: "level ?w3 \<le> ERROR"
    using assms(6) by simp
  have lv4: "level ?w4 \<le> ERROR"
    using lv3 by (simp add: scan_experiments_level)
  have returns: "fst (do_pack env config w) = None"
    by (simp add: pack)
  have disk: "files (snd (do_pack env config w)) = files w"
    by (simp add: pack scan_experiments_files)
  have scanned: "calls (snd (do_pack env config w))
                   = calls w @ scans tracker (workspace_stack ws) (workspace_dataset ws)"
    by (simp add: pack scan_experiments_calls)
  have reported: "incomplete_record e' s' \<in> set (log (snd (do_pack env config w)))"
    if "e' \<in> set (workspace_stack ws)" "s' \<in> set (workspace_dataset ws)"
       "\<not> fst (experiment_scan env e' tracker s')" for e' s'
  proof -
    from scan_experiments_reports [OF lv3 that, of "[]" True]
    have "incomplete_record e' s' \<in> set (log ?w4)" .
    with log_error_subset [of ?w4 ?msg "[]"] show ?thesis
      by (auto simp: pack)
  qed
  have final: "last (log (snd (do_pack env config w))) = (ERROR, ?msg, [])"
    using lv4 by (simp add: pack log_error)
  from returns disk scanned reported final show ?thesis
    by blast
qed

theorem do_pack_scans_all_then_returns_witness:
  "open_workspace sample_env (config_workspace sample_config) = sample_workspace
   \<and> registry_get (load_trackers sample_env
                     (workspace_registry sample_workspace @ config_registry sample_config))
       (config_tracker sample_config) = Inr (Tracker ''t1'')
   \<and> Experiment ''baseline'' \<in> set (workspace_stack sample_workspace)
   \<and> Sequence ''ball'' \<in> set (workspace_dataset sample_workspace)
   \<and> \<not> fst (experiment_scan sample_env (Experiment ''baseline'') (Tracker ''t1'') (Sequence ''ball''))
   \<and> level sample_world \<le> ERROR
   \<and> fst (do_pack sample_env sample_config sample_world) = None
   \<and> files (snd (do_pack sample_env sample_config sample_world)) = files sample_world
   \<and> calls (snd (do_pack sample_env sample_config sample_world))
       = calls sample_world
         @ scans (Tracker ''t1'') (workspace_stack sample_workspace) (workspace_dataset sample_workspace)
   \<and> incomplete_record (Experiment ''baseline'') (Sequence ''ball'')
       \<in> set (log (snd (do_pack sample_env sample_config sample_world)))
   \<and> last (log (snd (do_pack sample_env sample_config sample_world)))
       = (ERROR, ''Unable to continue, experiments not complete'', [])"
proof -
  have ws: "open_workspace sample_env (config_workspace sample_config) = sample_workspace"
    by (simp add: sample_env_def)
  have found: "registry_get (load_trackers sample_env
                 (workspace_registry sample_workspace @ config_registry sample_config))
               (config_tracker sample_config) = Inr (Tracker ''t1'')"
    by (simp add: registry_get_def workspace_defs)
  have e: "Experiment ''baseline'' \<in> set (workspace_stack sample_workspace)"
    by (simp add: sample_workspace_def)
  have s: "Sequence ''ball'' \<in> set (workspace_dataset sample_workspace)"
    by (simp add: sample_workspace_def)
  have gap: "\<not> fst (experiment_scan sample_env (Experiment ''baseline'') (Tracker ''t1'')
                     (Sequence ''ball''))"
    by (simp add: sample_env_def)
  have lv: "level sample_world \<le> ERROR"
    by (simp add: sample_world_def WARNING_def ERROR_def)
  from do_pack_scans_all_then_returns [OF ws found e s gap lv] ws found e s gap lv
  show ?thesis by blast
qed

text \<open>
  Claim C5. The claim says that when all units are complete every collected file is
  stored in the archive under \<^verbatim>\<open>experiment/sequence/file\<close>. In the workspace where every
  unit is complete and has the result file \<^verbatim>\<open>output.txt\<close>, \<^verbatim>\<open>do_pack\<close> ends with
  \<^verbatim>\<open>TypeError\<close> and the archive it has created has no member.
\<close>

theorem do_pack_complete_raises:
  "fst (do_pack quiet_env sample_config sample_world) = Some TypeError
   \<and> files (snd (do_pack quiet_env sample_config sample_world)) ''t1_2019-11-04T10:00:00.000000''
       = Some []"
  by (simp add: do_pack_def registry_get_def archive_one_def member_name_def path_join_def
      collected_def results_handle_def list_index_def workspace_defs logging_defs)

subsection \<open>The exit status\<close>








end
